theory Spec2Isabelle
  imports Complex_Main "HOL-Library.AList"
begin

section \<open>Conventions of the embedding\<close>

text \<open>
  The repository is TypeScript: an Express API server (\<open>api/src/index.ts\<close>) over a
  PostgreSQL schema (\<open>api/src/db/schema.sql\<close>) and five dashboard classes (RPL, QEM, LOA,
  OLI, PDS), each holding its events in memory.

  \<^item> A class is a \<^theory_text>\<open>record\<close> of its private fields; a method takes the record and
    returns the updated one.
  \<^item> \<open>new Date()\<close> and \<open>Date.now()\<close> are an explicit argument \<open>now\<close>; a \<open>Date\<close> is its
    number of milliseconds since the epoch, an \<open>int\<close>.
  \<^item> \<open>Math.random()\<close> is an explicit argument, the number drawn.
  \<^item> \<open>crypto.randomUUID()\<close> produces a fresh identifier that no operation reads back; the
    \<open>id\<close> fields are left out, and a \<open>Map\<close> keyed by such an identifier is the list of its
    values in insertion order.
  \<^item> A JavaScript number is a \<open>real\<close> where the source can only produce finite values
    (rounding of doubles is not modelled), and a \<open>jsnum\<close> where a division can meet a zero
    denominator and produce \<open>NaN\<close> or an infinity.
\<close>

section \<open>JavaScript numbers\<close>

datatype jsnum = Num real | PInf | NInf | NaN

text \<open>\<open>a / b\<close> on two finite numbers (a zero denominator is \<open>+0\<close>).\<close>

definition js_div :: "real \<Rightarrow> real \<Rightarrow> jsnum" where
  "js_div a b =
     (if b \<noteq> 0 then Num (a / b)
      else if a = 0 then NaN
      else if a > 0 then PInf else NInf)"

text \<open>\<open>x > y\<close>: false whenever an operand is \<open>NaN\<close>.\<close>

fun js_gt :: "jsnum \<Rightarrow> jsnum \<Rightarrow> bool" where
  "js_gt NaN _ = False"
| "js_gt _ NaN = False"
| "js_gt (Num a) (Num b) = (a > b)"
| "js_gt PInf PInf = False"
| "js_gt PInf _ = True"
| "js_gt _ PInf = False"
| "js_gt NInf _ = False"
| "js_gt (Num a) NInf = True"

definition js_lt :: "jsnum \<Rightarrow> jsnum \<Rightarrow> bool" where
  "js_lt x y = js_gt y x"

fun js_add :: "jsnum \<Rightarrow> jsnum \<Rightarrow> jsnum" where
  "js_add NaN _ = NaN"
| "js_add _ NaN = NaN"
| "js_add (Num a) (Num b) = Num (a + b)"
| "js_add PInf NInf = NaN"
| "js_add NInf PInf = NaN"
| "js_add PInf _ = PInf"
| "js_add _ PInf = PInf"
| "js_add NInf _ = NInf"
| "js_add _ NInf = NInf"

fun js_neg :: "jsnum \<Rightarrow> jsnum" where
  "js_neg (Num a) = Num (- a)"
| "js_neg PInf = NInf"
| "js_neg NInf = PInf"
| "js_neg NaN = NaN"

definition js_sub :: "jsnum \<Rightarrow> jsnum \<Rightarrow> jsnum" where
  "js_sub x y = js_add x (js_neg y)"

text \<open>
  \<open>x * c\<close> for a finite constant \<open>c > 0\<close>, and \<open>x / n\<close> for a finite \<open>n \<ge> 0\<close> (a length): the
  only uses in the source.
\<close>

fun js_scale :: "jsnum \<Rightarrow> real \<Rightarrow> jsnum" where
  "js_scale (Num a) c = Num (a * c)"
| "js_scale x c = x"

fun js_over :: "jsnum \<Rightarrow> real \<Rightarrow> jsnum" where
  "js_over (Num a) n = js_div a n"
| "js_over x n = x"

text \<open>\<open>Math.round\<close> rounds half up; \<open>Math.max(0, x)\<close> is \<open>NaN\<close> on \<open>NaN\<close>.\<close>

definition round_half_up :: "real \<Rightarrow> int" where
  "round_half_up x = \<lfloor>x + 1 / 2\<rfloor>"

fun js_round :: "jsnum \<Rightarrow> jsnum" where
  "js_round (Num a) = Num (of_int (round_half_up a))"
| "js_round x = x"

fun js_max0 :: "jsnum \<Rightarrow> jsnum" where
  "js_max0 (Num a) = Num (max 0 a)"
| "js_max0 PInf = PInf"
| "js_max0 NInf = Num 0"
| "js_max0 NaN = NaN"

section \<open>The API server (api/src/index.ts) over the schema (api/src/db/schema.sql)\<close>

subsection \<open>Requests and responses\<close>

text \<open>
  The bearer token of a request: absent, refused by \<open>jwt.verify\<close>, or decoded to an
  identifier and a role.
\<close>

datatype token = NoToken | BadToken | Decoded string string

record user =
  user_id :: string
  user_role :: string

text \<open>
  \<open>req.body\<close>: every field an endpoint or a middleware reads; \<open>None\<close> is \<open>undefined\<close>.
  Dates are milliseconds. A field holds a value of the type the handler expects; the
  coercions of \<open>parseFloat\<close> and of the database driver on other JSON values are outside
  the model.
\<close>

record body =
  confidenceWeight :: "real option"
  dataScope :: "string option"
  evidenceType :: "string option"
  origin :: "string option"
  framework :: "string option"
  context_text :: "string option"
  alternativesConsidered :: "string list option"
  decisionPoint :: "string option"
  domain :: "string option"
  questionText :: "string option"
  complexity :: "int option"
  sensitivity :: "int option"
  decisionId :: "string option"
  decisionDate :: "int option"
  beneficiary :: "string option"
  benefitRealizedDate :: "int option"
  observerId :: "string option"
  auditsReviewed :: "int option"
  correctionRate :: "real option"
  contradictionExposure :: "real option"
  purposeId :: "string option"
  eventType :: "string option"
  description :: "string option"

text \<open>
  What a route answers. The first three come from \<open>authMiddleware\<close>, the next five from
  \<open>epistemicHygieneMiddleware\<close> (the admission gate), the next three from
  \<open>validateDataScope\<close>, the rest from the handlers.
\<close>

datatype response =
    NoTokenProvided
  | InvalidToken
  | InsufficientPermissions
  | AuthenticationRequired
  | CooldownActive int int
  | ConcurrencyExceeded int int
  | ConfidenceCapExceeded real
  | UnauthorizedScope
  | InvalidDataScope
  | InvalidEvidenceType
  | InvalidOrigin
  | Created
  | LoaCreated int real
  | OliUpdated string string "int option" bool
  | PurposeNotFound
  | DriftStatus real bool nat int
  | ServerError

subsection \<open>The tables\<close>

record reasoning_frame_row =
  rf_framework :: string
  rf_confidence_weight :: real
  rf_first_used :: int
  rf_last_used :: int
  rf_decay_rate :: real
  rf_context :: "string option"
  rf_alternatives_considered :: "string list"
  rf_user_id :: "string option"
  rf_decision_point :: "string option"
  rf_data_scope :: string
  rf_evidence_type :: string
  rf_origin :: string

record question_row =
  q_domain :: string
  q_question_text :: string
  q_asked_by :: string
  q_asked_at :: int
  q_complexity :: "int option"
  q_sensitivity :: "int option"
  q_data_scope :: string
  q_evidence_type :: string
  q_origin :: string

record lagged_outcome_row =
  lo_decision_id :: string
  lo_decision_date :: int
  lo_beneficiary :: string
  lo_benefit_realized_date :: int
  lo_lag_days :: int
  lo_risk_score :: real
  lo_detected_at :: int
  lo_context :: "string option"
  lo_data_scope :: string
  lo_evidence_type :: string
  lo_origin :: string

record observer_metrics_row =
  om_audits_reviewed :: "int option"
  om_correction_rate :: "real option"
  om_contradiction_exposure :: "real option"
  om_fatigue_risk :: "string option"
  om_last_activity :: "int option"
  om_concurrent_audits :: int
  om_cooldown_until :: "int option"
  om_data_scope :: string
  om_evidence_type :: string
  om_origin :: string

record usage_event_row =
  ue_purpose_id :: "string option"
  ue_event_type :: string
  ue_description :: string
  ue_occurred_at :: int
  ue_data_scope :: string
  ue_evidence_type :: string
  ue_origin :: string

record system_purpose_row =
  sp_original_intent :: string
  sp_declared_at :: int
  sp_last_recommitment :: int

text \<open>
  The database: one list of rows per table, in insertion order; \<open>observer_metrics\<close> and
  \<open>system_purposes\<close> are keyed by their primary key. The generated columns (\<open>id\<close>,
  \<open>created_at\<close>, \<open>updated_at\<close>) and the columns no route writes are left out, except
  \<open>concurrent_audits\<close>, which the admission gate reads: no route writes it, so it keeps its
  default or seeded value.
\<close>

record db =
  reasoning_frames :: "reasoning_frame_row list"
  questions :: "question_row list"
  lagged_outcomes :: "lagged_outcome_row list"
  observer_metrics :: "(string \<times> observer_metrics_row) list"
  system_purposes :: "(string \<times> system_purpose_row) list"
  usage_events :: "usage_event_row list"

text \<open>
  A column \<open>DECIMAL(p,s)\<close> stores its value rounded to \<open>s\<close> decimals, half away from zero,
  and refuses a value whose rounded magnitude needs more than \<open>p - s\<close> integer digits.
\<close>

definition decimal :: "nat \<Rightarrow> nat \<Rightarrow> real \<Rightarrow> real option" where
  "decimal p s x =
     (let r = sgn x * of_int \<lfloor>\<bar>x\<bar> * 10 ^ s + 1 / 2\<rfloor> / 10 ^ s
      in if \<bar>r\<bar> \<ge> 10 ^ (p - s) then None else Some r)"

definition validScopes :: "string list" where
  "validScopes = [''inferred'', ''observed'', ''simulated'']"

definition validEvidenceTypes :: "string list" where
  "validEvidenceTypes = [''direct'', ''proxy'', ''estimated'']"

text \<open>
  The primary key of \<open>system_purposes\<close> and the column \<open>usage_events.purpose_id\<close> have the
  type \<open>UUID\<close>. PostgreSQL reads a uuid from text as sixteen pairs of hexadecimal digits,
  with an optional hyphen after every second pair but the last, the whole optionally in
  braces; any other text is a syntax error, which makes the statement throw. The value
  of a uuid is its 32 digits, here in lower case, and the two tables are keyed by it.
\<close>

definition is_hex :: "char \<Rightarrow> bool" where
  "is_hex c = (c \<in> set ''0123456789abcdefABCDEF'')"

definition hex_lower :: "char \<Rightarrow> char" where
  "hex_lower c = (case map_of (zip ''ABCDEF'' ''abcdef'') c of None \<Rightarrow> c | Some l \<Rightarrow> l)"

definition hyphen_after :: "bool list" where
  "hyphen_after =
     [False, True, False, True, False, True, False, True,
      False, True, False, True, False, True, False, False]"

fun uuid_pairs :: "bool list \<Rightarrow> string \<Rightarrow> (string \<times> string) option" where
  "uuid_pairs [] src = Some ([], src)"
| "uuid_pairs (h # hs) (a # b # src) =
     (if is_hex a \<and> is_hex b
      then (case uuid_pairs hs (if h \<and> take 1 src = ''-'' then drop 1 src else src) of
              None \<Rightarrow> None
            | Some (digits, rest) \<Rightarrow> Some (hex_lower a # hex_lower b # digits, rest))
      else None)"
| "uuid_pairs (h # hs) _ = None"

definition parse_uuid :: "string \<Rightarrow> string option" where
  "parse_uuid s =
     (let braces = (take 1 s = ''{'');
          src = (if braces then drop 1 s else s)
      in case uuid_pairs hyphen_after src of
           None \<Rightarrow> None
         | Some (digits, rest) \<Rightarrow>
             if rest = (if braces then ''}'' else []) then Some digits else None)"

text \<open>
  The seed data of the schema: the tables are empty but for one observer, seeded at a
  time taken as 0.
\<close>

definition initial_db :: db where
  "initial_db =
     \<lparr> reasoning_frames = [], questions = [], lagged_outcomes = [],
       observer_metrics =
         [(''test-observer-001'',
           \<lparr> om_audits_reviewed = Some 0, om_correction_rate = Some 0,
             om_contradiction_exposure = Some 0, om_fatigue_risk = Some ''low'',
             om_last_activity = Some 0, om_concurrent_audits = 0, om_cooldown_until = None,
             om_data_scope = ''observed'', om_evidence_type = ''direct'',
             om_origin = ''system-initialization'' \<rparr>)],
       system_purposes = [], usage_events = [] \<rparr>"


subsection \<open>Middleware\<close>

text \<open>
  \<open>authMiddleware(allowedRoles)\<close>: 401 without a token or with one that does not verify,
  403 for a role that is not allowed, otherwise \<open>req.user\<close> is set and the next handler runs.
\<close>

definition authMiddleware :: "string list \<Rightarrow> token \<Rightarrow> response + user" where
  "authMiddleware allowedRoles tok =
     (case tok of
        NoToken \<Rightarrow> Inl NoTokenProvided
      | BadToken \<Rightarrow> Inl InvalidToken
      | Decoded i r \<Rightarrow>
          if r \<in> set allowedRoles then Inr \<lparr> user_id = i, user_role = r \<rparr>
          else Inl InsufficientPermissions)"

definition MAX_CONCURRENT_AUDITS :: "string \<Rightarrow> int option" where
  "MAX_CONCURRENT_AUDITS role =
     (if role = ''observer'' then Some 2
      else if role = ''analyst'' then Some 3
      else if role = ''admin'' then Some 5
      else None)"

definition MAX_CONFIDENCE_WEIGHT :: real where
  "MAX_CONFIDENCE_WEIGHT = 95 / 100"

text \<open>
  The two checks on the actor's row of \<open>observer_metrics\<close>, made only when the row exists:
  \<open>cooldown_until && new Date(cooldown_until) > new Date()\<close> and
  \<open>concurrent_audits >= MAX_CONCURRENT_AUDITS[userRole]\<close> (false for a role without a limit).
\<close>

definition cooldown_active :: "observer_metrics_row \<Rightarrow> int \<Rightarrow> bool" where
  "cooldown_active row now =
     (case om_cooldown_until row of None \<Rightarrow> False | Some cu \<Rightarrow> cu > now)"

definition concurrency_exceeded :: "observer_metrics_row \<Rightarrow> string \<Rightarrow> bool" where
  "concurrency_exceeded row role =
     (case MAX_CONCURRENT_AUDITS role of
        None \<Rightarrow> False
      | Some maxAllowed \<Rightarrow> om_concurrent_audits row \<ge> maxAllowed)"

text \<open>
  \<open>epistemicHygieneMiddleware\<close>, the admission gate. Its checks run in this order:
  authentication, cooldown, concurrency, confidence cap, data scope. \<open>Inr ()\<close> is \<open>next()\<close>.
  \<open>confidence_and_scope\<close> is the end of the middleware, the two checks on the body, which
  run whether or not the actor has a row. A failure of the query itself (the \<open>catch\<close>
  that answers 500) is outside the model: the database always answers.
\<close>

definition confidence_and_scope :: "string \<Rightarrow> body \<Rightarrow> response + unit" where
  "confidence_and_scope userRole b =
     (if (case confidenceWeight b of
            None \<Rightarrow> False
          | Some confidence \<Rightarrow> confidence > MAX_CONFIDENCE_WEIGHT)
      then Inl (ConfidenceCapExceeded (the (confidenceWeight b)))
      else if dataScope b = Some ''simulated'' \<and> userRole \<noteq> ''admin''
      then Inl UnauthorizedScope
      else Inr ())"

definition epistemicHygieneMiddleware ::
  "db \<Rightarrow> int \<Rightarrow> user option \<Rightarrow> body \<Rightarrow> response + unit" where
  "epistemicHygieneMiddleware d now u b =
     (case u of
        None \<Rightarrow> Inl AuthenticationRequired
      | Some usr \<Rightarrow>
          if user_id usr = [] \<or> user_role usr = [] then Inl AuthenticationRequired
          else
            (case map_of (observer_metrics d) (user_id usr) of
               Some row \<Rightarrow>
                 if cooldown_active row now
                 then Inl (CooldownActive
                             \<lceil>real_of_int (the (om_cooldown_until row) - now) / 60000\<rceil>
                             (the (om_cooldown_until row)))
                 else if concurrency_exceeded row (user_role usr)
                 then Inl (ConcurrencyExceeded (om_concurrent_audits row)
                             (the (MAX_CONCURRENT_AUDITS (user_role usr))))
                 else confidence_and_scope (user_role usr) b
             | None \<Rightarrow> confidence_and_scope (user_role usr) b))"

text \<open>\<open>String.prototype.trim\<close> on ASCII text.\<close>

definition is_space :: "char \<Rightarrow> bool" where
  "is_space c = (c \<in> set [CHR 0x09, CHR 0x0A, CHR 0x0B, CHR 0x0C, CHR 0x0D, CHR 0x20])"

definition trim :: "string \<Rightarrow> string" where
  "trim s = rev (dropWhile is_space (rev (dropWhile is_space s)))"

definition validateDataScope :: "body \<Rightarrow> response + unit" where
  "validateDataScope b =
     (if (case dataScope b of None \<Rightarrow> True | Some s \<Rightarrow> s = [] \<or> s \<notin> set validScopes)
      then Inl InvalidDataScope
      else if (case evidenceType b of
                 None \<Rightarrow> True
               | Some s \<Rightarrow> s = [] \<or> s \<notin> set validEvidenceTypes)
      then Inl InvalidEvidenceType
      else if (case origin b of None \<Rightarrow> True | Some s \<Rightarrow> s = [] \<or> trim s = [])
      then Inl InvalidOrigin
      else Inr ())"

subsection \<open>The five POST routes\<close>

text \<open>
  An \<open>INSERT\<close> that violates a \<open>NOT NULL\<close> or \<open>CHECK\<close> constraint of the schema throws; the
  handler's \<open>catch\<close> answers 500 and nothing is written. The provenance columns are
  \<open>NOT NULL\<close> with a \<open>CHECK\<close> on the two enumerations.
\<close>

definition provenance_ok :: "body \<Rightarrow> bool" where
  "provenance_ok b =
     (case (dataScope b, evidenceType b, origin b) of
        (Some s, Some e, Some o') \<Rightarrow> s \<in> set validScopes \<and> e \<in> set validEvidenceTypes
      | _ \<Rightarrow> False)"

text \<open>
  \<open>POST /api/v2/rpl/track\<close>: \<open>authMiddleware\<close>, the admission gate, \<open>validateDataScope\<close>,
  then the insert into \<open>reasoning_frames\<close>, whose \<open>confidence_weight\<close> is
  \<open>DECIMAL(3,2) NOT NULL CHECK (confidence_weight >= 0 AND confidence_weight <= 0.95)\<close>.
\<close>

definition insert_reasoning_frame :: "db \<Rightarrow> int \<Rightarrow> user \<Rightarrow> body \<Rightarrow> db option" where
  "insert_reasoning_frame d now u b =
     (case (framework b, confidenceWeight b) of
        (Some f, Some w) \<Rightarrow>
          (case decimal 3 2 w of
             None \<Rightarrow> None
           | Some cw \<Rightarrow>
               if cw \<ge> 0 \<and> cw \<le> 95 / 100 \<and> provenance_ok b
               then Some (d \<lparr> reasoning_frames := reasoning_frames d @
                      [\<lparr> rf_framework = f, rf_confidence_weight = cw,
                         rf_first_used = now, rf_last_used = now, rf_decay_rate = 1 / 1000,
                         rf_context = context_text b,
                         rf_alternatives_considered =
                           (case alternativesConsidered b of None \<Rightarrow> [] | Some a \<Rightarrow> a),
                         rf_user_id = Some (user_id u),
                         rf_decision_point = decisionPoint b,
                         rf_data_scope = the (dataScope b),
                         rf_evidence_type = the (evidenceType b),
                         rf_origin = the (origin b) \<rparr>] \<rparr>)
               else None)
      | _ \<Rightarrow> None)"

definition rpl_track :: "db \<Rightarrow> int \<Rightarrow> token \<Rightarrow> body \<Rightarrow> response \<times> db" where
  "rpl_track d now tok b =
     (case authMiddleware [''analyst'', ''admin''] tok of
        Inl r \<Rightarrow> (r, d)
      | Inr u \<Rightarrow>
          (case epistemicHygieneMiddleware d now (Some u) b of
             Inl r \<Rightarrow> (r, d)
           | Inr _ \<Rightarrow>
               (case validateDataScope b of
                  Inl r \<Rightarrow> (r, d)
                | Inr _ \<Rightarrow>
                    (case insert_reasoning_frame d now u b of
                       None \<Rightarrow> (ServerError, d)
                     | Some d' \<Rightarrow> (Created, d')))))"

text \<open>
  \<open>POST /api/v2/qem/register\<close>: \<open>authMiddleware\<close> and \<open>validateDataScope\<close> only.
  \<open>complexity\<close> and \<open>sensitivity\<close> are nullable with \<open>CHECK (... BETWEEN 1 AND 5)\<close>.
\<close>

definition between_1_5 :: "int option \<Rightarrow> bool" where
  "between_1_5 v = (case v of None \<Rightarrow> True | Some n \<Rightarrow> 1 \<le> n \<and> n \<le> 5)"

definition insert_question :: "db \<Rightarrow> int \<Rightarrow> user \<Rightarrow> body \<Rightarrow> db option" where
  "insert_question d now u b =
     (case (domain b, questionText b) of
        (Some dm, Some txt) \<Rightarrow>
          if between_1_5 (complexity b) \<and> between_1_5 (sensitivity b) \<and> provenance_ok b
          then Some (d \<lparr> questions := questions d @
                 [\<lparr> q_domain = dm, q_question_text = txt, q_asked_by = user_id u,
                    q_asked_at = now, q_complexity = complexity b,
                    q_sensitivity = sensitivity b,
                    q_data_scope = the (dataScope b),
                    q_evidence_type = the (evidenceType b),
                    q_origin = the (origin b) \<rparr>] \<rparr>)
          else None
      | _ \<Rightarrow> None)"

definition qem_register :: "db \<Rightarrow> int \<Rightarrow> token \<Rightarrow> body \<Rightarrow> response \<times> db" where
  "qem_register d now tok b =
     (case authMiddleware [''analyst'', ''admin''] tok of
        Inl r \<Rightarrow> (r, d)
      | Inr u \<Rightarrow>
          (case validateDataScope b of
             Inl r \<Rightarrow> (r, d)
           | Inr _ \<Rightarrow>
               (case insert_question d now u b of
                  None \<Rightarrow> (ServerError, d)
                | Some d' \<Rightarrow> (Created, d'))))"


text \<open>
  \<open>POST /api/v2/loa/track-outcome\<close>: \<open>authMiddleware\<close> and \<open>validateDataScope\<close> only. The
  handler derives \<open>lagDays\<close> and \<open>riskScore = Math.min(10, lagDays / 30)\<close>; \<open>risk_score\<close> is
  \<open>DECIMAL(3,1) NOT NULL CHECK (risk_score >= 0 AND risk_score <= 10)\<close>. A missing date
  makes both \<open>NaN\<close>, and the insert fails on the \<open>NOT NULL\<close> date column.
\<close>

definition insert_lagged_outcome ::
  "db \<Rightarrow> int \<Rightarrow> body \<Rightarrow> int \<Rightarrow> real \<Rightarrow> db option" where
  "insert_lagged_outcome d now b lagDays riskScore =
     (case (decisionId b, beneficiary b, decimal 3 1 riskScore) of
        (Some did, Some ben, Some rs) \<Rightarrow>
          if rs \<ge> 0 \<and> rs \<le> 10 \<and> provenance_ok b
          then Some (d \<lparr> lagged_outcomes := lagged_outcomes d @
                 [\<lparr> lo_decision_id = did, lo_decision_date = the (decisionDate b),
                    lo_beneficiary = ben,
                    lo_benefit_realized_date = the (benefitRealizedDate b),
                    lo_lag_days = lagDays, lo_risk_score = rs, lo_detected_at = now,
                    lo_context = context_text b,
                    lo_data_scope = the (dataScope b),
                    lo_evidence_type = the (evidenceType b),
                    lo_origin = the (origin b) \<rparr>] \<rparr>)
          else None
      | _ \<Rightarrow> None)"

definition loa_track_outcome :: "db \<Rightarrow> int \<Rightarrow> token \<Rightarrow> body \<Rightarrow> response \<times> db" where
  "loa_track_outcome d now tok b =
     (case authMiddleware [''analyst'', ''admin''] tok of
        Inl r \<Rightarrow> (r, d)
      | Inr u \<Rightarrow>
          (case validateDataScope b of
             Inl r \<Rightarrow> (r, d)
           | Inr _ \<Rightarrow>
               (case (decisionDate b, benefitRealizedDate b) of
                  (Some dd, Some bd) \<Rightarrow>
                    (let lagDays = (bd - dd) div (1000 * 60 * 60 * 24);
                         riskScore = min 10 (real_of_int lagDays / 30)
                     in case insert_lagged_outcome d now b lagDays riskScore of
                          None \<Rightarrow> (ServerError, d)
                        | Some d' \<Rightarrow> (LoaCreated lagDays riskScore, d'))
                | _ \<Rightarrow> (ServerError, d))))"

text \<open>
  \<open>POST /api/v2/oli/update-load\<close>: \<open>authMiddleware\<close> and \<open>validateDataScope\<close> only. The
  handler computes \<open>fatigueScore = correctionRate * 0.4 + contradictionExposure * 0.6\<close>
  (\<open>NaN\<close>, hence tier \<open>low\<close>, when a rate is missing), the tier, and a cooldown of 24
  hours for the tier \<open>critical\<close>; then it upserts the observer's row.
\<close>

definition api_fatigueRisk :: "real option \<Rightarrow> real option \<Rightarrow> string" where
  "api_fatigueRisk cr ce =
     (case (cr, ce) of
        (Some c, Some e) \<Rightarrow>
          (let fatigueScore = c * (4 / 10) + e * (6 / 10)
           in if fatigueScore > 7 / 10 then ''critical''
              else if fatigueScore > 5 / 10 then ''high''
              else if fatigueScore > 3 / 10 then ''medium''
              else ''low'')
      | _ \<Rightarrow> ''low'')"

definition api_cooldownUntil :: "string \<Rightarrow> int \<Rightarrow> int option" where
  "api_cooldownUntil fatigueRisk now =
     (if fatigueRisk = ''critical'' then Some (now + 24 * 60 * 60 * 1000) else None)"

text \<open>
  A nullable column \<open>DECIMAL(3,2) CHECK (c >= 0 AND c <= 1)\<close>: the stored value, or \<open>None\<close>
  when the value is refused.
\<close>

definition rate_column :: "real option \<Rightarrow> real option option" where
  "rate_column v =
     (case v of
        None \<Rightarrow> Some None
      | Some x \<Rightarrow>
          (case decimal 3 2 x of
             None \<Rightarrow> None
           | Some r \<Rightarrow> if r \<ge> 0 \<and> r \<le> 1 then Some (Some r) else None))"

definition upsert_observer_metrics ::
  "db \<Rightarrow> int \<Rightarrow> body \<Rightarrow> string \<Rightarrow> int option \<Rightarrow> db option" where
  "upsert_observer_metrics d now b fatigueRisk cooldownUntil =
     (case (observerId b, rate_column (correctionRate b),
            rate_column (contradictionExposure b)) of
        (Some oid, Some cr, Some ce) \<Rightarrow>
          if provenance_ok b
          then Some (d \<lparr> observer_metrics :=
                 AList.update oid
                   (case map_of (observer_metrics d) oid of
                      None \<Rightarrow>
                        \<lparr> om_audits_reviewed = auditsReviewed b, om_correction_rate = cr,
                          om_contradiction_exposure = ce,
                          om_fatigue_risk = Some fatigueRisk,
                          om_last_activity = Some now, om_concurrent_audits = 0,
                          om_cooldown_until = cooldownUntil,
                          om_data_scope = the (dataScope b),
                          om_evidence_type = the (evidenceType b),
                          om_origin = the (origin b) \<rparr>
                    | Some row \<Rightarrow>
                        row \<lparr> om_audits_reviewed := auditsReviewed b,
                              om_correction_rate := cr,
                              om_contradiction_exposure := ce,
                              om_fatigue_risk := Some fatigueRisk,
                              om_last_activity := Some now,
                              om_cooldown_until := cooldownUntil \<rparr>)
                   (observer_metrics d) \<rparr>)
          else None
      | _ \<Rightarrow> None)"

definition oli_update_load :: "db \<Rightarrow> int \<Rightarrow> token \<Rightarrow> body \<Rightarrow> response \<times> db" where
  "oli_update_load d now tok b =
     (case authMiddleware [''analyst'', ''admin''] tok of
        Inl r \<Rightarrow> (r, d)
      | Inr u \<Rightarrow>
          (case validateDataScope b of
             Inl r \<Rightarrow> (r, d)
           | Inr _ \<Rightarrow>
               (let fatigueRisk = api_fatigueRisk (correctionRate b) (contradictionExposure b);
                    cooldownUntil = api_cooldownUntil fatigueRisk now
                in case upsert_observer_metrics d now b fatigueRisk cooldownUntil of
                     None \<Rightarrow> (ServerError, d)
                   | Some d' \<Rightarrow>
                       (OliUpdated (the (observerId b)) fatigueRisk cooldownUntil
                          (fatigueRisk = ''critical''), d'))))"

text \<open>
  \<open>POST /api/v2/pds/track-usage\<close>: \<open>authMiddleware\<close> and \<open>validateDataScope\<close> only.
  \<open>purpose_id\<close> is a nullable foreign key into \<open>system_purposes\<close>: a \<open>purposeId\<close> that is
  no uuid, or the uuid of no purpose, makes the insert throw.
\<close>

definition insert_usage_event :: "db \<Rightarrow> int \<Rightarrow> body \<Rightarrow> db option" where
  "insert_usage_event d now b =
     (case (eventType b, description b) of
        (Some t, Some ds) \<Rightarrow>
          if (case purposeId b of
                None \<Rightarrow> True
              | Some p \<Rightarrow>
                  (case parse_uuid p of
                     None \<Rightarrow> False
                   | Some k \<Rightarrow> map_of (system_purposes d) k \<noteq> None)) \<and> provenance_ok b
          then Some (d \<lparr> usage_events := usage_events d @
                 [\<lparr> ue_purpose_id = Option.bind (purposeId b) parse_uuid,
                    ue_event_type = t, ue_description = ds,
                    ue_occurred_at = now,
                    ue_data_scope = the (dataScope b),
                    ue_evidence_type = the (evidenceType b),
                    ue_origin = the (origin b) \<rparr>] \<rparr>)
          else None
      | _ \<Rightarrow> None)"

definition pds_track_usage :: "db \<Rightarrow> int \<Rightarrow> token \<Rightarrow> body \<Rightarrow> response \<times> db" where
  "pds_track_usage d now tok b =
     (case authMiddleware [''analyst'', ''admin''] tok of
        Inl r \<Rightarrow> (r, d)
      | Inr u \<Rightarrow>
          (case validateDataScope b of
             Inl r \<Rightarrow> (r, d)
           | Inr _ \<Rightarrow>
               (case insert_usage_event d now b of
                  None \<Rightarrow> (ServerError, d)
                | Some d' \<Rightarrow> (Created, d'))))"

text \<open>The states of the database that requests to the five POST routes can produce.\<close>

datatype endpoint = RplTrack | QemRegister | LoaTrackOutcome | OliUpdateLoad | PdsTrackUsage

fun post :: "endpoint \<Rightarrow> db \<Rightarrow> int \<Rightarrow> token \<Rightarrow> body \<Rightarrow> response \<times> db" where
  "post RplTrack = rpl_track"
| "post QemRegister = qem_register"
| "post LoaTrackOutcome = loa_track_outcome"
| "post OliUpdateLoad = oli_update_load"
| "post PdsTrackUsage = pds_track_usage"


text \<open>The four rejections of the admission gate named by the specification.\<close>

fun gate_rejection :: "response \<Rightarrow> bool" where
  "gate_rejection (CooldownActive _ _) = True"
| "gate_rejection (ConcurrencyExceeded _ _) = True"
| "gate_rejection (ConfidenceCapExceeded _) = True"
| "gate_rejection UnauthorizedScope = True"
| "gate_rejection _ = False"

subsection \<open>The drift status route\<close>

text \<open>
  \<open>GET /api/v2/pds/drift-status/:purposeId\<close>: 500 when \<open>purposeId\<close> is no uuid (the first
  query throws), 404 for an unknown purpose; otherwise the number of the purpose's
  events, at most 20, and \<open>driftMagnitude = eventCount < 10 ? 0 : Math.random() * 40\<close>.
\<close>

definition pds_drift_status :: "db \<Rightarrow> token \<Rightarrow> string \<Rightarrow> real \<Rightarrow> response" where
  "pds_drift_status d tok pid random =
     (case authMiddleware [''observer'', ''analyst'', ''admin''] tok of
        Inl r \<Rightarrow> r
      | Inr u \<Rightarrow>
          (case parse_uuid pid of
             None \<Rightarrow> ServerError
           | Some k \<Rightarrow>
               (case map_of (system_purposes d) k of
                  None \<Rightarrow> PurposeNotFound
                | Some p \<Rightarrow>
                    (let eventCount =
                           min 20 (length (filter (\<lambda>e. ue_purpose_id e = Some k)
                                             (usage_events d)));
                         driftMagnitude = (if eventCount < 10 then 0 else random * 40)
                     in DriftStatus driftMagnitude (driftMagnitude > 30) eventCount
                          (sp_last_recommitment p)))))"

section \<open>Values shared by the dashboard classes\<close>

text \<open>
  The string tags of the trend and risk-level fields, and the durations the classes
  write as products of \<open>24 * 60 * 60 * 1000\<close>.
\<close>

datatype trend = RISING | STABLE | DROPPING | DRIFTING | CRITICAL

datatype riskLevel = LOW | MEDIUM | HIGH

definition ms_per_day :: int where
  "ms_per_day = 24 * 60 * 60 * 1000"

section \<open>Question Entropy Monitor (dashboard/src/modules/qem/QuestionEntropyMonitor.tsx)\<close>

record Question =
  qn_domain :: string
  qn_questionText :: string
  qn_askedBy :: string
  qn_askedAt :: int
  qn_answered :: bool
  qn_answerDate :: "int option"
  qn_complexity :: real
  qn_sensitivity :: real

text \<open>
  The argument of \<open>registerQuestion\<close>. The method fills in \<open>askedAt\<close>, \<open>answered\<close>,
  \<open>complexity\<close> and \<open>sensitivity\<close> with \<open>||\<close>, so these may be missing (\<open>None\<close>).
\<close>

record QuestionInput =
  in_domain :: string
  in_questionText :: string
  in_askedBy :: string
  in_askedAt :: "int option"
  in_answered :: "bool option"
  in_answerDate :: "int option"
  in_complexity :: "real option"
  in_sensitivity :: "real option"

record EntropyMetrics =
  em_domain :: string
  historicalFrequency :: real
  currentFrequency :: real
  gapScore :: real
  em_trend :: trend
  em_lastCalculated :: int

record EntropyAlert =
  ea_domain :: string
  ea_gapScore :: real
  ea_threshold :: real
  ea_detectedAt :: int
  ea_missingQuestions :: "string list"
  ea_riskLevel :: riskLevel

record QuestionEntropyMonitor =
  questionRegistry :: "(string \<times> Question list) list"
  entropyAlerts :: "EntropyAlert list"
  suppressedQuestions :: "(string \<times> string list) list"

definition new_QuestionEntropyMonitor :: QuestionEntropyMonitor where
  "new_QuestionEntropyMonitor =
     \<lparr> questionRegistry = [], entropyAlerts = [], suppressedQuestions = [] \<rparr>"

text \<open>\<open>x || 1\<close> on a number that may be missing: 1 for \<open>undefined\<close> and for 0.\<close>

definition or_one :: "real option \<Rightarrow> real" where
  "or_one v = (case v of None \<Rightarrow> 1 | Some x \<Rightarrow> if x = 0 then 1 else x)"

definition registry_get :: "(string \<times> 'a list) list \<Rightarrow> string \<Rightarrow> 'a list" where
  "registry_get m k = (case map_of m k of None \<Rightarrow> [] | Some xs \<Rightarrow> xs)"

definition calculateEntropy :: "QuestionEntropyMonitor \<Rightarrow> string \<Rightarrow> int \<Rightarrow> EntropyMetrics" where
  "calculateEntropy s dm now =
     (let questions = registry_get (questionRegistry s) dm
      in if length questions < 20
         then \<lparr> em_domain = dm, historicalFrequency = 0, currentFrequency = 0,
                gapScore = 0, em_trend = STABLE, em_lastCalculated = now \<rparr>
         else
           (let twelveWeeksAgo = now - 12 * 7 * 24 * 60 * 60 * 1000;
                fourWeeksAgo = now - 4 * 7 * 24 * 60 * 60 * 1000;
                historicalQuestions =
                  filter (\<lambda>q. qn_askedAt q < fourWeeksAgo \<and> qn_askedAt q \<ge> twelveWeeksAgo)
                    questions;
                recentQuestions = filter (\<lambda>q. qn_askedAt q \<ge> fourWeeksAgo) questions;
                hf = real (length historicalQuestions) / 12;
                cf = real (length recentQuestions) / 4;
                gap = (if hf > 0 then ((hf - cf) / hf) * 100 else 0)
            in \<lparr> em_domain = dm, historicalFrequency = hf, currentFrequency = cf,
                 gapScore = gap,
                 em_trend = (if gap > 10 then DROPPING else if gap < - 10 then RISING else STABLE),
                 em_lastCalculated = now \<rparr>))"

definition generateMissingQuestions :: "string \<Rightarrow> string list" where
  "generateMissingQuestions dm =
     (if dm = ''vendor-oversight'' then
        [''Who audits the auditors?'',
         ''What conflicts of interest exist in vendor selection?'',
         ''How are vendor performance metrics independently verified?'',
         ''What happens when vendors fail to meet SLAs?'']
      else if dm = ''financial-controls'' then
        [''Who has override authority for financial controls?'',
         ''How often are override logs reviewed?'',
         ''What triggers an independent financial audit?'',
         ''Who benefits from budget reallocations?'']
      else if dm = ''policy-compliance'' then
        [''Who determines when policies can be waived?'',
         ''How are policy exceptions documented?'',
         ''What percentage of operations have policy waivers?'',
         ''Who reviews waiver justifications?'']
      else
        [''What questions should we be asking about this domain?'',
         ''Who benefits from not asking certain questions?'',
         ''What assumptions are we not challenging?''])"

definition triggerEntropyAlert ::
  "QuestionEntropyMonitor \<Rightarrow> string \<Rightarrow> EntropyMetrics \<Rightarrow> int \<Rightarrow> QuestionEntropyMonitor" where
  "triggerEntropyAlert s dm metrics now =
     (let missingQuestions = generateMissingQuestions dm;
          alert = \<lparr> ea_domain = dm, ea_gapScore = gapScore metrics, ea_threshold = 50,
                    ea_detectedAt = now, ea_missingQuestions = missingQuestions,
                    ea_riskLevel = (if gapScore metrics > 75 then HIGH
                                    else if gapScore metrics > 60 then MEDIUM else LOW) \<rparr>
      in s \<lparr> entropyAlerts := entropyAlerts s @ [alert],
             suppressedQuestions := AList.update dm missingQuestions (suppressedQuestions s) \<rparr>)"

definition checkEntropy :: "QuestionEntropyMonitor \<Rightarrow> string \<Rightarrow> int \<Rightarrow> QuestionEntropyMonitor" where
  "checkEntropy s dm now =
     (let metrics = calculateEntropy s dm now
      in if gapScore metrics > 50 then triggerEntropyAlert s dm metrics now else s)"

text \<open>The question that \<open>registerQuestion\<close> stores for its argument.\<close>

definition newQuestion :: "QuestionInput \<Rightarrow> int \<Rightarrow> Question" where
  "newQuestion question now =
     \<lparr> qn_domain = in_domain question, qn_questionText = in_questionText question,
       qn_askedBy = in_askedBy question,
       qn_askedAt = (case in_askedAt question of None \<Rightarrow> now | Some t \<Rightarrow> t),
       qn_answered = (case in_answered question of None \<Rightarrow> False | Some a \<Rightarrow> a),
       qn_answerDate = in_answerDate question,
       qn_complexity = or_one (in_complexity question),
       qn_sensitivity = or_one (in_sensitivity question) \<rparr>"

definition registerQuestion ::
  "QuestionEntropyMonitor \<Rightarrow> QuestionInput \<Rightarrow> int \<Rightarrow> QuestionEntropyMonitor" where
  "registerQuestion s question now =
     (let domainQuestions =
            registry_get (questionRegistry s) (in_domain question) @ [newQuestion question now];
          s' = s \<lparr> questionRegistry :=
                     AList.update (in_domain question) domainQuestions (questionRegistry s) \<rparr>
      in if length domainQuestions mod 10 = 0 then checkEntropy s' (in_domain question) now
         else s')"

text \<open>
  \<open>calculateResilience\<close>: the gap scores of all registered domains are averaged; the
  result is \<open>Math.max(0, Math.round(100 - avgGapScore))\<close>.
\<close>

definition qem_calculateResilience :: "QuestionEntropyMonitor \<Rightarrow> int \<Rightarrow> int" where
  "qem_calculateResilience s now =
     (let totalGapScore =
            sum_list (map (\<lambda>(dm, _). gapScore (calculateEntropy s dm now)) (questionRegistry s));
          domainCount = length (questionRegistry s)
      in if domainCount = 0 then 100
         else max 0 (round_half_up (100 - totalGapScore / real domainCount)))"

section \<open>Lagged Outcome Attribution (dashboard/src/modules/loa/LaggedOutcomeAttribution.tsx)\<close>

record LaggedOutcome =
  out_decisionId :: string
  out_decisionDate :: int
  out_beneficiary :: string
  out_benefitRealizedDate :: int
  lagDays :: int
  riskScore :: int
  out_detectedAt :: int
  out_context :: "string option"

text \<open>The argument of \<open>trackOutcome\<close>: an outcome without the derived fields.\<close>

record OutcomeInput =
  oi_decisionId :: string
  oi_decisionDate :: int
  oi_beneficiary :: string
  oi_benefitRealizedDate :: int
  oi_context :: "string option"

record BeneficiaryPattern =
  bp_beneficiary :: string
  occurrences :: nat
  avgLagDays :: real
  totalRiskScore :: int
  firstDetected :: int
  lastDetected :: int

record LagAlert =
  la_pattern :: string
  la_riskScore :: jsnum
  la_threshold :: real
  la_detectedAt :: int
  affectedDecisions :: "string list"
  la_riskLevel :: riskLevel

record LaggedOutcomeAttribution =
  outcomes :: "LaggedOutcome list"
  lagAlerts :: "LagAlert list"
  beneficiaryPatterns :: "(string \<times> BeneficiaryPattern) list"

definition new_LaggedOutcomeAttribution :: LaggedOutcomeAttribution where
  "new_LaggedOutcomeAttribution = \<lparr> outcomes = [], lagAlerts = [], beneficiaryPatterns = [] \<rparr>"

text \<open>
  \<open>calculateConsistency\<close>: \<open>Math.max(0, 1 - stdDev / avgLag)\<close> over the beneficiary's
  outcomes; 0 with fewer than two of them.
\<close>

definition calculateConsistency :: "LaggedOutcomeAttribution \<Rightarrow> string \<Rightarrow> jsnum" where
  "calculateConsistency s ben =
     (let beneficiaryOutcomes = filter (\<lambda>o'. out_beneficiary o' = ben) (outcomes s)
      in if length beneficiaryOutcomes < 2 then Num 0
         else
           (let n = real (length beneficiaryOutcomes);
                avgLag = real_of_int (sum_list (map lagDays beneficiaryOutcomes)) / n;
                variance =
                  sum_list (map (\<lambda>o'. (real_of_int (lagDays o') - avgLag) ^ 2) beneficiaryOutcomes) / n;
                stdDev = sqrt variance
            in js_max0 (js_sub (Num 1) (js_div stdDev avgLag))))"

definition calculateRiskScore :: "LaggedOutcomeAttribution \<Rightarrow> int \<Rightarrow> string \<Rightarrow> int" where
  "calculateRiskScore s lag ben =
     (let lagPoints = (if lag > 180 then 4 else if lag > 90 then 3
                       else if lag > 30 then 2 else if lag > 7 then 1 else 0);
          pattern = map_of (beneficiaryPatterns s) ben;
          frequencyPoints =
            (case pattern of
               None \<Rightarrow> 0
             | Some p \<Rightarrow> if occurrences p > 10 then 3 else if occurrences p > 5 then 2
                         else if occurrences p > 2 then 1 else 0);
          consistencyPoints =
            (case pattern of
               None \<Rightarrow> 0
             | Some p \<Rightarrow>
                 if avgLagDays p > 60
                 then (let consistency = calculateConsistency s ben
                       in if js_gt consistency (Num (8 / 10)) then 3
                          else if js_gt consistency (Num (6 / 10)) then 2
                          else if js_gt consistency (Num (4 / 10)) then 1 else 0)
                 else 0)
      in min 10 (lagPoints + frequencyPoints + consistencyPoints))"

definition updateBeneficiaryPattern ::
  "LaggedOutcomeAttribution \<Rightarrow> string \<Rightarrow> int \<Rightarrow> int \<Rightarrow> int \<Rightarrow> LaggedOutcomeAttribution" where
  "updateBeneficiaryPattern s ben lag risk now =
     (let pattern =
            (case map_of (beneficiaryPatterns s) ben of
               None \<Rightarrow> \<lparr> bp_beneficiary = ben, occurrences = 0, avgLagDays = 0,
                          totalRiskScore = 0, firstDetected = now, lastDetected = now \<rparr>
             | Some p \<Rightarrow> p);
          occ = occurrences pattern + 1;
          pattern' = pattern
            \<lparr> occurrences := occ,
              avgLagDays := (avgLagDays pattern * (real occ - 1) + real_of_int lag) / real occ,
              totalRiskScore := totalRiskScore pattern + risk,
              lastDetected := now \<rparr>
      in s \<lparr> beneficiaryPatterns := AList.update ben pattern' (beneficiaryPatterns s) \<rparr>)"

text \<open>
  Decimal digits of a natural number, and \<open>Number.prototype.toFixed(0)\<close>: the sign, then
  the magnitude rounded half up (below \<open>10^21\<close>, where JavaScript switches to exponents).
\<close>

fun show_nat :: "nat \<Rightarrow> string" where
  "show_nat n =
     (if n < 10 then [''0123456789'' ! n]
      else show_nat (n div 10) @ [''0123456789'' ! (n mod 10)])"

declare show_nat.simps [simp del]

definition toFixed0 :: "real \<Rightarrow> string" where
  "toFixed0 x =
     (if x < 0 then ''-'' @ show_nat (nat (round_half_up (- x)))
      else show_nat (nat (round_half_up x)))"

definition pattern_text :: "BeneficiaryPattern \<Rightarrow> nat \<Rightarrow> string" where
  "pattern_text pattern n =
     bp_beneficiary pattern @ '' - '' @ show_nat n @ '' decisions with avg '' @
     toFixed0 (avgLagDays pattern) @ ''-day lag''"

text \<open>
  \<open>triggerLagAlert\<close>: the alert is added unless an alert with the same \<open>pattern\<close> text was
  detected less than seven days ago.
\<close>

definition triggerLagAlert ::
  "LagAlert list \<Rightarrow> BeneficiaryPattern \<Rightarrow> string list \<Rightarrow> int \<Rightarrow> LagAlert list" where
  "triggerLagAlert alerts pattern affected now =
     (let avgRisk = js_div (real_of_int (totalRiskScore pattern)) (real (occurrences pattern));
          alert = \<lparr> la_pattern = pattern_text pattern (length affected),
                    la_riskScore = avgRisk, la_threshold = 7, la_detectedAt = now,
                    affectedDecisions = affected,
                    la_riskLevel = (if js_gt avgRisk (Num (85 / 10)) then HIGH
                                    else if js_gt avgRisk (Num (75 / 10)) then MEDIUM
                                    else LOW) \<rparr>;
          exists = list_ex (\<lambda>a. la_pattern a = la_pattern alert \<and>
                                 la_detectedAt a > now - 7 * ms_per_day) alerts
      in if exists then alerts else alerts @ [alert])"

definition high_risk_pattern :: "BeneficiaryPattern \<Rightarrow> bool" where
  "high_risk_pattern p =
     js_gt (js_div (real_of_int (totalRiskScore p)) (real (occurrences p))) (Num 7)"

definition affected_decisions :: "LaggedOutcome list \<Rightarrow> string \<Rightarrow> string list" where
  "affected_decisions os ben = map out_decisionId (filter (\<lambda>o'. out_beneficiary o' = ben) os)"

text \<open>The body of the \<open>forEach\<close> of \<open>checkLagPatterns\<close>, on the list of alerts.\<close>

definition check_pattern ::
  "LaggedOutcome list \<Rightarrow> int \<Rightarrow> BeneficiaryPattern \<Rightarrow> LagAlert list \<Rightarrow> LagAlert list" where
  "check_pattern os now pattern alerts =
     (let affected = affected_decisions os (bp_beneficiary pattern)
      in if length affected \<ge> 3 then triggerLagAlert alerts pattern affected now else alerts)"

definition checkLagPatterns :: "LaggedOutcomeAttribution \<Rightarrow> int \<Rightarrow> LaggedOutcomeAttribution" where
  "checkLagPatterns s now =
     (let highRiskPatterns = filter high_risk_pattern (map snd (beneficiaryPatterns s))
      in s \<lparr> lagAlerts := fold (check_pattern (outcomes s) now) highRiskPatterns (lagAlerts s) \<rparr>)"

definition trackOutcome ::
  "LaggedOutcomeAttribution \<Rightarrow> OutcomeInput \<Rightarrow> int \<Rightarrow> LaggedOutcomeAttribution" where
  "trackOutcome s outcome now =
     (let lag = (oi_benefitRealizedDate outcome - oi_decisionDate outcome) div ms_per_day;
          risk = calculateRiskScore s lag (oi_beneficiary outcome);
          newOutcome =
            \<lparr> out_decisionId = oi_decisionId outcome,
              out_decisionDate = oi_decisionDate outcome,
              out_beneficiary = oi_beneficiary outcome,
              out_benefitRealizedDate = oi_benefitRealizedDate outcome,
              lagDays = lag, riskScore = risk, out_detectedAt = now,
              out_context = oi_context outcome \<rparr>;
          s1 = s \<lparr> outcomes := outcomes s @ [newOutcome] \<rparr>;
          s2 = updateBeneficiaryPattern s1 (oi_beneficiary outcome) lag risk now
      in checkLagPatterns s2 now)"


section \<open>Observer Load Index (class \<open>ObserverLoadIndex\<close>)\<close>

text \<open>The tiers of the dashboard class: its type has no tier \<open>critical\<close>.\<close>

datatype fatigueRisk = low | medium | high

record ObserverMetrics =
  obs_observerId :: string
  obs_auditsReviewed :: int
  obs_correctionRate :: real
  obs_contradictionExposure :: real
  obs_fatigueRisk :: fatigueRisk
  obs_lastActivity :: int

datatype alert_action = WARNING | MANDATORY_COOLDOWN

record LoadAlert =
  load_observerId :: string
  fatigueScore :: int
  load_metrics :: ObserverMetrics
  triggeredAt :: int
  load_action :: alert_action

record CooldownEntry =
  ce_observerId :: string
  startTime :: int
  duration :: int
  ce_reason :: string

record ObserverLoadIndex =
  observers :: "(string \<times> ObserverMetrics) list"
  loadAlerts :: "LoadAlert list"
  cooldownQueue :: "CooldownEntry list"
  lastBreaks :: "(string \<times> int) list"


definition initializeObserver :: "string \<Rightarrow> int \<Rightarrow> ObserverMetrics" where
  "initializeObserver oid now =
     \<lparr> obs_observerId = oid, obs_auditsReviewed = 0, obs_correctionRate = 0,
       obs_contradictionExposure = 0, obs_fatigueRisk = low, obs_lastActivity = now \<rparr>"

text \<open>
  The two placeholders: \<open>Math.random() * 0.6\<close> and \<open>Math.random() * 0.8\<close>, whatever the
  observer. The argument \<open>random\<close> is the number drawn.
\<close>

definition calculateCorrectionRate :: "string \<Rightarrow> real \<Rightarrow> real" where
  "calculateCorrectionRate oid random = random * (6 / 10)"

definition calculateContradictionExposure :: "string \<Rightarrow> real \<Rightarrow> real" where
  "calculateContradictionExposure oid random = random * (8 / 10)"

definition getHoursSinceLastBreak :: "ObserverLoadIndex \<Rightarrow> string \<Rightarrow> int \<Rightarrow> real" where
  "getHoursSinceLastBreak s oid now =
     (case map_of (lastBreaks s) oid of
        None \<Rightarrow> 72
      | Some lastBreak \<Rightarrow> real_of_int (now - lastBreak) / (1000 * 60 * 60))"

definition calculateFatigueScore :: "ObserverLoadIndex \<Rightarrow> ObserverMetrics \<Rightarrow> int \<Rightarrow> int" where
  "calculateFatigueScore s metrics now =
     (let volume = (if obs_auditsReviewed metrics > 20 then 3
                    else if obs_auditsReviewed metrics > 10 then 2
                    else if obs_auditsReviewed metrics > 5 then 1 else 0);
          stress = (if obs_correctionRate metrics > 5 / 10 then 3
                    else if obs_correctionRate metrics > 25 / 100 then 2
                    else if obs_correctionRate metrics > 1 / 10 then 1 else 0);
          exposure = (if obs_contradictionExposure metrics > 7 / 10 then 2
                      else if obs_contradictionExposure metrics > 4 / 10 then 1 else 0);
          hoursSinceBreak = getHoursSinceLastBreak s (obs_observerId metrics) now;
          rest = (if hoursSinceBreak > 48 then 2 else if hoursSinceBreak > 24 then 1 else 0)
      in min 10 (volume + stress + exposure + rest))"

definition calculateFatigueRisk ::
  "ObserverLoadIndex \<Rightarrow> ObserverMetrics \<Rightarrow> int \<Rightarrow> fatigueRisk" where
  "calculateFatigueRisk s metrics now =
     (let score = calculateFatigueScore s metrics now
      in if score \<ge> 7 then high else if score \<ge> 4 then medium else low)"

definition calculateCooldownDuration :: "ObserverLoadIndex \<Rightarrow> ObserverMetrics \<Rightarrow> int \<Rightarrow> int" where
  "calculateCooldownDuration s metrics now =
     (let score = calculateFatigueScore s metrics now
      in if score \<ge> 9 then 72 else if score \<ge> 7 then 48 else 24)"

text \<open>
  \<open>triggerFatigueAlert\<close>: an alert and an entry of the cooldown queue
  (\<open>blockObserverAssignments\<close> only writes to the console).
\<close>

definition triggerFatigueAlert ::
  "ObserverLoadIndex \<Rightarrow> string \<Rightarrow> ObserverMetrics \<Rightarrow> int \<Rightarrow> ObserverLoadIndex" where
  "triggerFatigueAlert s oid metrics now =
     s \<lparr> loadAlerts := loadAlerts s @
           [\<lparr> load_observerId = oid,
              fatigueScore = calculateFatigueScore s metrics now,
              load_metrics = metrics, triggeredAt = now,
              load_action = MANDATORY_COOLDOWN \<rparr>],
         cooldownQueue := cooldownQueue s @
           [\<lparr> ce_observerId = oid, startTime = now,
              duration = calculateCooldownDuration s metrics now,
              ce_reason = ''high_fatigue_risk'' \<rparr>] \<rparr>"

text \<open>
  \<open>updateObserverLoad(observerId, task)\<close> never reads \<open>task\<close>. \<open>random1\<close> and \<open>random2\<close> are
  the numbers drawn for the correction rate and for the contradiction exposure.
\<close>

definition updateObserverLoad ::
  "ObserverLoadIndex \<Rightarrow> string \<Rightarrow> int \<Rightarrow> real \<Rightarrow> real \<Rightarrow> ObserverLoadIndex" where
  "updateObserverLoad s oid now random1 random2 =
     (let metrics0 = (case map_of (observers s) oid of
                        None \<Rightarrow> initializeObserver oid now
                      | Some m \<Rightarrow> m);
          metrics1 = metrics0
            \<lparr> obs_auditsReviewed := obs_auditsReviewed metrics0 + 1,
              obs_correctionRate := calculateCorrectionRate oid random1,
              obs_contradictionExposure := calculateContradictionExposure oid random2,
              obs_lastActivity := now \<rparr>;
          metrics = metrics1 \<lparr> obs_fatigueRisk := calculateFatigueRisk s metrics1 now \<rparr>;
          s' = s \<lparr> observers := AList.update oid metrics (observers s) \<rparr>
      in if obs_fatigueRisk metrics = high then triggerFatigueAlert s' oid metrics now
         else s')"


section \<open>Purpose Drift Sentinel (class \<open>PurposeDriftSentinel\<close>)\<close>

record SystemPurpose =
  pu_id :: string
  originalIntent :: string
  declaredAt :: int
  lastRecommitment :: int
  pu_domain :: string

record PurposeInput =
  pi_originalIntent :: string
  pi_declaredAt :: "int option"
  pi_domain :: string

record UsageEvent =
  ev_purposeId :: string
  ev_eventType :: string
  ev_description :: string
  ev_occurredAt :: int

record UsageInput =
  ui_eventType :: string
  ui_description :: string
  ui_occurredAt :: "int option"

record DriftMetrics =
  dm_purposeId :: string
  semanticDivergence :: jsnum
  usagePatternShift :: real
  overallDrift :: jsnum
  dm_trend :: trend
  dm_lastCalculated :: int

datatype drift_action = PAUSE_SYSTEM | REQUIRE_RECOMMITMENT

record DriftAlert =
  da_purposeId :: string
  divergence :: jsnum
  da_threshold :: real
  da_detectedAt :: int
  da_action :: drift_action
  deadline :: "int option"

record PurposeDriftSentinel =
  purposes :: "(string \<times> SystemPurpose) list"
  usageEvents :: "(string \<times> UsageEvent list) list"
  driftAlerts :: "DriftAlert list"
  systemPaused :: bool

definition new_PurposeDriftSentinel :: PurposeDriftSentinel where
  "new_PurposeDriftSentinel =
     \<lparr> purposes = [], usageEvents = [], driftAlerts = [], systemPaused = False \<rparr>"

text \<open>\<open>registerPurpose\<close>; \<open>uuid\<close> is the identifier drawn, which the method returns.\<close>

definition registerPurpose ::
  "PurposeDriftSentinel \<Rightarrow> string \<Rightarrow> PurposeInput \<Rightarrow> int \<Rightarrow> string \<times> PurposeDriftSentinel" where
  "registerPurpose s uuid purpose now =
     (uuid,
      s \<lparr> purposes := AList.update uuid
             \<lparr> pu_id = uuid, originalIntent = pi_originalIntent purpose,
               declaredAt = (case pi_declaredAt purpose of None \<Rightarrow> now | Some t \<Rightarrow> t),
               lastRecommitment = now, pu_domain = pi_domain purpose \<rparr>
             (purposes s),
           usageEvents := AList.update uuid [] (usageEvents s) \<rparr>)"

text \<open>
  \<open>extractKeywords\<close> on ASCII text: \<open>toLowerCase\<close>, \<open>split(/\W+/)\<close>, and the words longer
  than three characters. The pieces of the split are the maximal runs of word characters
  (letters, digits, underscore); the empty pieces it can produce at either end are among
  those the filter drops.
\<close>

definition toLowerCase_char :: "char \<Rightarrow> char" where
  "toLowerCase_char c =
     (case map_of (zip ''ABCDEFGHIJKLMNOPQRSTUVWXYZ'' ''abcdefghijklmnopqrstuvwxyz'') c of
        None \<Rightarrow> c
      | Some l \<Rightarrow> l)"

definition is_word_char :: "char \<Rightarrow> bool" where
  "is_word_char c =
     (c \<in> set ''abcdefghijklmnopqrstuvwxyzABCDEFGHIJKLMNOPQRSTUVWXYZ0123456789_'')"

fun split_nonword :: "string \<Rightarrow> string \<Rightarrow> string list" where
  "split_nonword cur [] = (if cur = [] then [] else [cur])"
| "split_nonword cur (c # cs) =
     (if is_word_char c then split_nonword (cur @ [c]) cs
      else if cur = [] then split_nonword [] cs
      else cur # split_nonword [] cs)"

definition extractKeywords :: "string \<Rightarrow> string list" where
  "extractKeywords txt =
     filter (\<lambda>word. length word > 3) (split_nonword [] (map toLowerCase_char txt))"

text \<open>The number of elements of \<open>ks\<close> that occur in \<open>other\<close>, as \<open>filter\<close> and \<open>includes\<close> count it.\<close>

definition overlap_count :: "string list \<Rightarrow> string list \<Rightarrow> nat" where
  "overlap_count ks other = length (filter (\<lambda>k. k \<in> set other) ks)"

definition last_n :: "nat \<Rightarrow> 'a list \<Rightarrow> 'a list" where
  "last_n n xs = drop (length xs - n) xs"

definition calculateSemanticDivergence :: "SystemPurpose \<Rightarrow> UsageEvent list \<Rightarrow> jsnum" where
  "calculateSemanticDivergence purpose events =
     (let intentKeywords = extractKeywords (originalIntent purpose);
          recentEvents = last_n 20 events;
          matchScore =
            fold (\<lambda>event score.
                    js_add score
                      (js_div (real (overlap_count intentKeywords
                                       (extractKeywords (ev_description event))))
                              (real (length intentKeywords))))
                 recentEvents (Num 0);
          avgMatchScore = js_over matchScore (real (length recentEvents))
      in js_sub (Num 1) avgMatchScore)"

definition calculateUsagePatternShift :: "UsageEvent list \<Rightarrow> real" where
  "calculateUsagePatternShift events =
     (if length events < 20 then 0
      else
        (let earlyTypes = remdups (map ev_eventType (take 10 events));
             recentTypes = remdups (map ev_eventType (last_n 10 events));
             sharedTypes = filter (\<lambda>t. t \<in> set recentTypes) earlyTypes;
             allTypes = remdups (earlyTypes @ recentTypes);
             jaccardSimilarity = real (length sharedTypes) / real (length allTypes)
         in 1 - jaccardSimilarity))"

definition calculateDrift :: "PurposeDriftSentinel \<Rightarrow> string \<Rightarrow> int \<Rightarrow> DriftMetrics" where
  "calculateDrift s pid now =
     (let events = registry_get (usageEvents s) pid
      in case map_of (purposes s) pid of
           None \<Rightarrow> \<lparr> dm_purposeId = pid, semanticDivergence = Num 0, usagePatternShift = 0,
                      overallDrift = Num 0, dm_trend = STABLE, dm_lastCalculated = now \<rparr>
         | Some purpose \<Rightarrow>
             if length events < 10
             then \<lparr> dm_purposeId = pid, semanticDivergence = Num 0, usagePatternShift = 0,
                    overallDrift = Num 0, dm_trend = STABLE, dm_lastCalculated = now \<rparr>
             else
               (let sd = calculateSemanticDivergence purpose events;
                    ups = calculateUsagePatternShift events;
                    drift = js_add (js_scale sd (7 / 10)) (Num (ups * (3 / 10)))
                in \<lparr> dm_purposeId = pid, semanticDivergence = sd, usagePatternShift = ups,
                     overallDrift = drift,
                     dm_trend = (if js_gt drift (Num (4 / 10)) then CRITICAL
                                 else if js_gt drift (Num (2 / 10)) then DRIFTING else STABLE),
                     dm_lastCalculated = now \<rparr>))"

definition triggerDriftAlert ::
  "PurposeDriftSentinel \<Rightarrow> string \<Rightarrow> DriftMetrics \<Rightarrow> int \<Rightarrow> PurposeDriftSentinel" where
  "triggerDriftAlert s pid metrics now =
     (let act = (if js_gt (overallDrift metrics) (Num (5 / 10))
                 then PAUSE_SYSTEM else REQUIRE_RECOMMITMENT);
          alert = \<lparr> da_purposeId = pid, divergence = overallDrift metrics,
                    da_threshold = 3 / 10, da_detectedAt = now, da_action = act,
                    deadline = Some (now + 7 * ms_per_day) \<rparr>;
          s' = s \<lparr> driftAlerts := driftAlerts s @ [alert] \<rparr>
      in if act = PAUSE_SYSTEM then s' \<lparr> systemPaused := True \<rparr> else s')"

definition checkDrift :: "PurposeDriftSentinel \<Rightarrow> string \<Rightarrow> int \<Rightarrow> PurposeDriftSentinel" where
  "checkDrift s pid now =
     (let metrics = calculateDrift s pid now
      in if js_gt (overallDrift metrics) (Num (3 / 10)) then triggerDriftAlert s pid metrics now
         else s)"

definition trackUsage ::
  "PurposeDriftSentinel \<Rightarrow> string \<Rightarrow> UsageInput \<Rightarrow> int \<Rightarrow> PurposeDriftSentinel" where
  "trackUsage s pid event now =
     (let newEvent = \<lparr> ev_purposeId = pid, ev_eventType = ui_eventType event,
                       ev_description = ui_description event,
                       ev_occurredAt = (case ui_occurredAt event of None \<Rightarrow> now | Some t \<Rightarrow> t) \<rparr>;
          events = registry_get (usageEvents s) pid @ [newEvent];
          s' = s \<lparr> usageEvents := AList.update pid events (usageEvents s) \<rparr>
      in if length events mod 10 = 0 then checkDrift s' pid now else s')"

definition verifyRecommitmentAlignment :: "string \<Rightarrow> string \<Rightarrow> jsnum" where
  "verifyRecommitmentAlignment intent recommitment =
     (let originalKeywords = extractKeywords intent;
          recommitmentKeywords = extractKeywords recommitment
      in js_div (real (overlap_count originalKeywords recommitmentKeywords))
           (real (length originalKeywords)))"

text \<open>\<open>recommit\<close> returns whether the recommitment was accepted, and the new state.\<close>

definition recommit ::
  "PurposeDriftSentinel \<Rightarrow> string \<Rightarrow> string \<Rightarrow> int \<Rightarrow> bool \<times> PurposeDriftSentinel" where
  "recommit s pid recommitmentStatement now =
     (case map_of (purposes s) pid of
        None \<Rightarrow> (False, s)
      | Some purpose \<Rightarrow>
          if js_lt (verifyRecommitmentAlignment (originalIntent purpose) recommitmentStatement)
               (Num (7 / 10))
          then (False, s)
          else (True,
                s \<lparr> purposes := AList.update pid (purpose \<lparr> lastRecommitment := now \<rparr>) (purposes s),
                    driftAlerts := filter (\<lambda>a. da_purposeId a \<noteq> pid) (driftAlerts s),
                    systemPaused := False \<rparr>))"

definition pds_calculateResilience :: "PurposeDriftSentinel \<Rightarrow> int \<Rightarrow> jsnum" where
  "pds_calculateResilience s now =
     (let totalDrift =
            fold (\<lambda>(pid, _) total. js_add total (overallDrift (calculateDrift s pid now)))
              (purposes s) (Num 0);
          purposeCount = length (purposes s)
      in if purposeCount = 0 then Num 100
         else js_max0 (js_round
                (js_scale (js_sub (Num 1) (js_over totalDrift (real purposeCount))) 100)))"

section \<open>Reasoning Provenance Layer (class \<open>ReasoningProvenanceLayer\<close>)\<close>

record ReasoningFrame =
  fr_framework :: string
  fr_confidenceWeight :: real
  firstUsed :: int
  lastUsed :: int
  decayRate :: real
  fr_context :: "string option"
  fr_alternativesConsidered :: "string list option"
  fr_userId :: "string option"
  fr_sessionId :: "string option"
  fr_decisionPoint :: "string option"

record FrameInput =
  fi_framework :: string
  fi_confidenceWeight :: real
  fi_firstUsed :: "int option"
  fi_decayRate :: "real option"
  fi_context :: "string option"
  fi_alternativesConsidered :: "string list option"
  fi_userId :: "string option"
  fi_sessionId :: "string option"
  fi_decisionPoint :: "string option"

record DominanceAlert =
  dal_framework :: string
  dominance :: jsnum
  dal_threshold :: real
  dal_detectedAt :: int
  recommendation :: string
  dal_riskLevel :: riskLevel

record ReasoningProvenanceLayer =
  frames :: "ReasoningFrame list"
  dominanceAlerts :: "DominanceAlert list"
  frameworkRotationQueue :: "string list"


text \<open>The map from framework to summed weight that three methods build with \<open>forEach\<close>.\<close>

definition frameworkWeights :: "ReasoningFrame list \<Rightarrow> (string \<times> real) list" where
  "frameworkWeights fs =
     fold (\<lambda>frame m.
             AList.update (fr_framework frame)
               ((case map_of m (fr_framework frame) of None \<Rightarrow> 0 | Some w \<Rightarrow> w)
                + fr_confidenceWeight frame) m)
       fs []"

definition totalWeight :: "ReasoningFrame list \<Rightarrow> real" where
  "totalWeight fs = sum_list (map fr_confidenceWeight fs)"

definition getAlternativeFrameworks :: "string \<Rightarrow> string list" where
  "getAlternativeFrameworks current =
     filter (\<lambda>f. f \<noteq> current)
       [''Devil_Lens_Critique'', ''RSGD_360_Spiral'', ''Institutional_Decay_Detector'',
        ''Beneficiary_Tracing'', ''Question_Entropy_Analysis'']"

definition generateRotationRecommendation :: "string \<Rightarrow> string" where
  "generateRotationRecommendation dominantFramework =
     ''Force '' @ hd (getAlternativeFrameworks dominantFramework) @
     '' analysis for next 3 audits to restore analytical diversity''"

definition triggerDominanceAlert ::
  "ReasoningProvenanceLayer \<Rightarrow> string \<Rightarrow> jsnum \<Rightarrow> int \<Rightarrow> ReasoningProvenanceLayer" where
  "triggerDominanceAlert s fw dominanceValue now =
     s \<lparr> dominanceAlerts := dominanceAlerts s @
           [\<lparr> dal_framework = fw, dominance = dominanceValue, dal_threshold = 7 / 10,
              dal_detectedAt = now,
              recommendation = generateRotationRecommendation fw,
              dal_riskLevel = (if js_gt dominanceValue (Num (85 / 100)) then HIGH
                               else if js_gt dominanceValue (Num (75 / 100)) then MEDIUM else LOW) \<rparr>],
         frameworkRotationQueue :=
           frameworkRotationQueue s @ take 2 (getAlternativeFrameworks fw) \<rparr>"

definition checkFrameworkDominance ::
  "ReasoningProvenanceLayer \<Rightarrow> int \<Rightarrow> ReasoningProvenanceLayer" where
  "checkFrameworkDominance s now =
     fold (\<lambda>(fw, weight) s'.
             (let dominanceValue = js_div weight (totalWeight (frames s))
              in if js_gt dominanceValue (Num (7 / 10)) then triggerDominanceAlert s' fw dominanceValue now else s'))
       (frameworkWeights (frames s)) s"

definition trackReasoning ::
  "ReasoningProvenanceLayer \<Rightarrow> FrameInput \<Rightarrow> int \<Rightarrow> ReasoningProvenanceLayer" where
  "trackReasoning s frame now =
     checkFrameworkDominance
       (s \<lparr> frames := frames s @
              [\<lparr> fr_framework = fi_framework frame,
                 fr_confidenceWeight = fi_confidenceWeight frame,
                 firstUsed = (case fi_firstUsed frame of None \<Rightarrow> now | Some t \<Rightarrow> t),
                 lastUsed = now,
                 decayRate = (case fi_decayRate frame of
                                None \<Rightarrow> 1 / 10000
                              | Some r \<Rightarrow> if r = 0 then 1 / 10000 else r),
                 fr_context = fi_context frame,
                 fr_alternativesConsidered = fi_alternativesConsidered frame,
                 fr_userId = fi_userId frame, fr_sessionId = fi_sessionId frame,
                 fr_decisionPoint = fi_decisionPoint frame \<rparr>] \<rparr>)
       now"


section \<open>Predicates used to state the properties\<close>



text \<open>
  The metrics that \<open>updateObserverLoad\<close> computes for an observer before it derives the
  tier: one more audit, and the two rates drawn.
\<close>

definition updated_metrics :: "ObserverLoadIndex \<Rightarrow> string \<Rightarrow> int \<Rightarrow> real \<Rightarrow> real \<Rightarrow> ObserverMetrics" where
  "updated_metrics s oid now r1 r2 =
     (let m0 = (case map_of (observers s) oid of None \<Rightarrow> initializeObserver oid now | Some m \<Rightarrow> m)
      in m0 \<lparr> obs_auditsReviewed := obs_auditsReviewed m0 + 1,
              obs_correctionRate := calculateCorrectionRate oid r1,
              obs_contradictionExposure := calculateContradictionExposure oid r2,
              obs_lastActivity := now \<rparr>)"

text \<open>
  The condition under which \<open>triggerLagAlert\<close> drops an alert: the list holds an alert
  with the same \<open>pattern\<close> text that was detected less than seven days before \<open>now\<close>.
\<close>

definition recent_same_text :: "int \<Rightarrow> string \<Rightarrow> LagAlert list \<Rightarrow> bool" where
  "recent_same_text now txt alerts =
     list_ex (\<lambda>a. la_pattern a = txt \<and> la_detectedAt a > now - 7 * ms_per_day) alerts"


section \<open>Concrete inputs\<close>

subsection \<open>Requests to the API\<close>

definition empty_body :: body where
  "empty_body =
     \<lparr> confidenceWeight = None, dataScope = None, evidenceType = None, origin = None,
       framework = None, context_text = None, alternativesConsidered = None,
       decisionPoint = None, domain = None, questionText = None, complexity = None,
       sensitivity = None, decisionId = None, decisionDate = None, beneficiary = None,
       benefitRealizedDate = None, observerId = None, auditsReviewed = None,
       correctionRate = None, contradictionExposure = None, purposeId = None,
       eventType = None, description = None \<rparr>"

definition analyst_a1 :: token where "analyst_a1 = Decoded ''a1'' ''analyst''"

definition provenance_body :: body where
  "provenance_body = empty_body \<lparr> dataScope := Some ''observed'', evidenceType := Some ''direct'', origin := Some ''audit-7'' \<rparr>"

definition critical_load_body :: body where
  "critical_load_body = provenance_body \<lparr> observerId := Some ''a1'', auditsReviewed := Some 3,
      correctionRate := Some (9 / 10), contradictionExposure := Some (9 / 10) \<rparr>"

definition cooling_db :: db where
  "cooling_db = snd (post OliUpdateLoad initial_db 0 analyst_a1 critical_load_body)"


definition question_body :: body where
  "question_body = empty_body \<lparr> dataScope := Some ''simulated'', evidenceType := Some ''direct'',
      origin := Some ''audit-7'', confidenceWeight := Some (99 / 100),
      domain := Some ''vendor-oversight'', questionText := Some ''Who audits the auditors?'',
      complexity := Some 3, sensitivity := Some 2 \<rparr>"

subsection \<open>States of the Purpose Drift Sentinel\<close>

text \<open>
  A purpose whose declared intent has no word longer than three characters, and ten usage
  events tracked for it.
\<close>

definition marketing_event :: UsageInput where
  "marketing_event = \<lparr> ui_eventType = ''export'', ui_description = ''Exported marketing leads'',
      ui_occurredAt = None \<rparr>"

definition terse_purpose :: PurposeInput where
  "terse_purpose = \<lparr> pi_originalIntent = ''Do it now'', pi_declaredAt = None,
      pi_domain = ''ops'' \<rparr>"

definition terse_sentinel :: PurposeDriftSentinel where
  "terse_sentinel =
     fold (\<lambda>e s. trackUsage s ''p2'' e 5)
       [marketing_event, marketing_event, marketing_event, marketing_event, marketing_event,
        marketing_event, marketing_event, marketing_event, marketing_event, marketing_event]
       (snd (registerPurpose new_PurposeDriftSentinel ''p2'' terse_purpose 0))"

text \<open>
  Two purposes, the second one the purpose without keywords, and usage events of the
  first that share no keyword with its intent: nine of them, and the tenth, at which
  the drift of the first purpose is checked.
\<close>

definition audit_purpose :: PurposeInput where
  "audit_purpose = \<lparr> pi_originalIntent = ''Detect vendor audit drift'', pi_declaredAt = None,
      pi_domain = ''vendor-oversight'' \<rparr>"

definition two_purposes :: PurposeDriftSentinel where
  "two_purposes =
     snd (registerPurpose (snd (registerPurpose new_PurposeDriftSentinel ''p1'' audit_purpose 0))
            ''p2'' terse_purpose 0)"

definition nine_tracked :: PurposeDriftSentinel where
  "nine_tracked =
     fold (\<lambda>e s. trackUsage s ''p1'' e 5)
       [marketing_event, marketing_event, marketing_event, marketing_event, marketing_event,
        marketing_event, marketing_event, marketing_event, marketing_event]
       two_purposes"

definition paused_sentinel :: PurposeDriftSentinel where
  "paused_sentinel = trackUsage nine_tracked ''p1'' marketing_event 5"

definition stored_event :: UsageEvent where
  "stored_event = \<lparr> ev_purposeId = ''p1'', ev_eventType = ''export'',
      ev_description = ''Exported marketing leads'', ev_occurredAt = 5 \<rparr>"

text \<open>
  A paused sentinel with an open alert for the purpose \<open>p1\<close> and one for another purpose.
\<close>

definition drifted_sentinel :: PurposeDriftSentinel where
  "drifted_sentinel =
     \<lparr> purposes =
         [(''p1'', \<lparr> pu_id = ''p1'', originalIntent = ''Detect vendor audit drift'',
                    declaredAt = 0, lastRecommitment = 0, pu_domain = ''vendor-oversight'' \<rparr>)],
       usageEvents = [(''p1'', [])],
       driftAlerts =
         [\<lparr> da_purposeId = ''p1'', divergence = Num (7 / 10), da_threshold = 3 / 10,
            da_detectedAt = 5, da_action = PAUSE_SYSTEM, deadline = Some (5 + 7 * ms_per_day) \<rparr>,
          \<lparr> da_purposeId = ''p9'', divergence = Num (35 / 100), da_threshold = 3 / 10,
            da_detectedAt = 6, da_action = REQUIRE_RECOMMITMENT,
            deadline = Some (6 + 7 * ms_per_day) \<rparr>],
       systemPaused = True \<rparr>"

subsection \<open>States of the Question Entropy Monitor\<close>

definition week_ms :: int where "week_ms = 7 * ms_per_day"

definition vendor_question :: "int \<Rightarrow> QuestionInput" where
  "vendor_question t =
     \<lparr> in_domain = ''vendor-oversight'', in_questionText = ''Who audits the auditors?'',
       in_askedBy = ''a1'', in_askedAt = Some t, in_answered = None, in_answerDate = None,
       in_complexity = None, in_sensitivity = None \<rparr>"


text \<open>
  At week 20, twelve questions asked in week 12 and eight asked in week 19 have been
  registered: one question a week in the historical window, two a week in the recent one.
\<close>

definition rising_monitor :: QuestionEntropyMonitor where
  "rising_monitor =
     fold (\<lambda>q s. registerQuestion s q (20 * week_ms))
       (replicate 12 (vendor_question (12 * week_ms)) @ replicate 8 (vendor_question (19 * week_ms)))
       new_QuestionEntropyMonitor"

text \<open>
  At week 20, a registry of 139 questions: 4 asked in week 1, 120 in week 12 and 15 in
  week 19. One more question asked in week 19 makes 140.
\<close>

definition dropping_monitor :: QuestionEntropyMonitor where
  "dropping_monitor =
     \<lparr> questionRegistry =
         [(''vendor-oversight'',
           replicate 4 (newQuestion (vendor_question week_ms) 0) @
           replicate 120 (newQuestion (vendor_question (12 * week_ms)) 0) @
           replicate 15 (newQuestion (vendor_question (19 * week_ms)) 0))],
       entropyAlerts = [], suppressedQuestions = [] \<rparr>"

text \<open>The registry of 140 questions, as \<open>registerQuestion\<close> hands it to \<open>checkEntropy\<close>.\<close>

definition full_monitor :: QuestionEntropyMonitor where
  "full_monitor =
     dropping_monitor \<lparr> questionRegistry :=
       AList.update ''vendor-oversight''
         (registry_get (questionRegistry dropping_monitor) ''vendor-oversight'' @
            [newQuestion (vendor_question (19 * week_ms)) (20 * week_ms)])
         (questionRegistry dropping_monitor) \<rparr>"

subsection \<open>States of the Observer Load Index and of the drift status route\<close>

text \<open>
  An observer with 24 audits whose last break was at time 0; the metrics of the
  specification's example, which the observer has after one more audit at hour 50 when
  the two rates drawn are 0.55 and 0.75; and the same figures as a request to the API.
\<close>

definition hour_ms :: int where "hour_ms = 1000 * 60 * 60"

definition loaded_index :: ObserverLoadIndex where
  "loaded_index =
     \<lparr> observers =
         [(''o1'', \<lparr> obs_observerId = ''o1'', obs_auditsReviewed = 24,
                    obs_correctionRate = 2 / 10, obs_contradictionExposure = 3 / 10,
                    obs_fatigueRisk = medium, obs_lastActivity = 0 \<rparr>)],
       loadAlerts = [], cooldownQueue = [], lastBreaks = [(''o1'', 0)] \<rparr>"



text \<open>
  A database with one purpose and ten usage events for it; below, the purpose as a
  request names it, a uuid of no purpose, and a text that is no uuid.
\<close>

definition observer_o1 :: token where "observer_o1 = Decoded ''o1'' ''observer''"

definition drift_db :: db where
  "drift_db = initial_db
     \<lparr> system_purposes :=
         [(''7c9e6679742540de944be07fc1f90ae7'',
           \<lparr> sp_original_intent = ''Detect vendor audit drift'', sp_declared_at = 0,
             sp_last_recommitment = 0 \<rparr>)],
       usage_events :=
         replicate 10 \<lparr> ue_purpose_id = Some ''7c9e6679742540de944be07fc1f90ae7'',
                        ue_event_type = ''export'',
                        ue_description = ''Exported marketing leads'', ue_occurred_at = 5,
                        ue_data_scope = ''observed'', ue_evidence_type = ''direct'',
                        ue_origin = ''audit-7'' \<rparr> \<rparr>"


definition known_purpose :: string where
  "known_purpose = ''7c9e6679-7425-40de-944b-e07fc1f90ae7''"



subsection \<open>A run of the Lagged Outcome Attribution\<close>

definition day :: "int \<Rightarrow> int" where
  "day n = n * ms_per_day"

text \<open>
  Outcomes of the beneficiary \<open>acme\<close>, each realised 200 days after its decision: eight
  tracked on day 201 and a ninth on day 203; then an outcome of another beneficiary on
  day 204.
\<close>

definition acme_outcome :: "string \<Rightarrow> OutcomeInput" where
  "acme_outcome did =
     \<lparr> oi_decisionId = did, oi_decisionDate = 0, oi_beneficiary = ''acme'',
       oi_benefitRealizedDate = day 200, oi_context = None \<rparr>"

definition zeta_outcome :: OutcomeInput where
  "zeta_outcome =
     \<lparr> oi_decisionId = ''z1'', oi_decisionDate = day 204, oi_beneficiary = ''zeta'',
       oi_benefitRealizedDate = day 204, oi_context = None \<rparr>"

definition acme1 :: LaggedOutcomeAttribution where
  "acme1 = trackOutcome new_LaggedOutcomeAttribution (acme_outcome ''d1'') (day 201)"

definition acme2 :: LaggedOutcomeAttribution where
  "acme2 = trackOutcome acme1 (acme_outcome ''d2'') (day 201)"

definition acme3 :: LaggedOutcomeAttribution where
  "acme3 = trackOutcome acme2 (acme_outcome ''d3'') (day 201)"

definition acme4 :: LaggedOutcomeAttribution where
  "acme4 = trackOutcome acme3 (acme_outcome ''d4'') (day 201)"

definition acme5 :: LaggedOutcomeAttribution where
  "acme5 = trackOutcome acme4 (acme_outcome ''d5'') (day 201)"

definition acme6 :: LaggedOutcomeAttribution where
  "acme6 = trackOutcome acme5 (acme_outcome ''d6'') (day 201)"

definition acme7 :: LaggedOutcomeAttribution where
  "acme7 = trackOutcome acme6 (acme_outcome ''d7'') (day 201)"

definition acme8 :: LaggedOutcomeAttribution where
  "acme8 = trackOutcome acme7 (acme_outcome ''d8'') (day 201)"

definition acme9 :: LaggedOutcomeAttribution where
  "acme9 = trackOutcome acme8 (acme_outcome ''d9'') (day 203)"

definition acme10 :: LaggedOutcomeAttribution where
  "acme10 = trackOutcome acme9 zeta_outcome (day 204)"

text \<open>
  What the run stores: the outcomes with their risk scores, the pattern of \<open>acme\<close>, and the
  two alerts.
\<close>

definition acme_stored :: "string \<Rightarrow> int \<Rightarrow> int \<Rightarrow> LaggedOutcome" where
  "acme_stored did risk t =
     \<lparr> out_decisionId = did, out_decisionDate = 0, out_beneficiary = ''acme'',
       out_benefitRealizedDate = day 200, lagDays = 200, riskScore = risk,
       out_detectedAt = t, out_context = None \<rparr>"

definition acme_history :: "LaggedOutcome list" where
  "acme_history =
     [acme_stored ''d1'' 4 (day 201),
      acme_stored ''d2'' 4 (day 201),
      acme_stored ''d3'' 7 (day 201),
      acme_stored ''d4'' 8 (day 201),
      acme_stored ''d5'' 8 (day 201),
      acme_stored ''d6'' 8 (day 201),
      acme_stored ''d7'' 9 (day 201),
      acme_stored ''d8'' 9 (day 201),
      acme_stored ''d9'' 9 (day 203)]"

definition acme_pattern :: "nat \<Rightarrow> int \<Rightarrow> int \<Rightarrow> BeneficiaryPattern" where
  "acme_pattern n sumRisk t =
     \<lparr> bp_beneficiary = ''acme'', occurrences = n, avgLagDays = 200, totalRiskScore = sumRisk,
       firstDetected = day 201, lastDetected = t \<rparr>"

definition acme_alert :: "string \<Rightarrow> real \<Rightarrow> nat \<Rightarrow> int \<Rightarrow> LagAlert" where
  "acme_alert txt avgRisk n t =
     \<lparr> la_pattern = txt, la_riskScore = Num avgRisk, la_threshold = 7, la_detectedAt = t,
       affectedDecisions = map out_decisionId (take n acme_history), la_riskLevel = LOW \<rparr>"

definition alert8 :: LagAlert where
  "alert8 = acme_alert ''acme - 8 decisions with avg 200-day lag'' (57 / 8) 8 (day 201)"

definition alert9 :: LagAlert where
  "alert9 = acme_alert ''acme - 9 decisions with avg 200-day lag'' (22 / 3) 9 (day 203)"


section \<open>The admission gate and the confidence cap\<close>














lemma cooling_db_row:
  "map_of (observer_metrics cooling_db) ''a1'' =
     Some \<lparr> om_audits_reviewed = Some 3, om_correction_rate = Some (9 / 10),
            om_contradiction_exposure = Some (9 / 10), om_fatigue_risk = Some ''critical'',
            om_last_activity = Some 0, om_concurrent_audits = 0,
            om_cooldown_until = Some 86400000,
            om_data_scope = ''observed'', om_evidence_type = ''direct'',
            om_origin = ''audit-7'' \<rparr>"
  by (simp add: cooling_db_def oli_update_load_def authMiddleware_def analyst_a1_def
      validateDataScope_def critical_load_body_def provenance_body_def empty_body_def
      validScopes_def validEvidenceTypes_def trim_def is_space_def api_fatigueRisk_def
      api_cooldownUntil_def upsert_observer_metrics_def rate_column_def decimal_def
      provenance_ok_def initial_db_def Let_def)






section \<open>The routes that do not run the admission gate\<close>

lemma auth_not_gate: "authMiddleware roles tok = Inl r \<Longrightarrow> \<not> gate_rejection r"
  by (auto simp: authMiddleware_def split: token.splits if_splits)

lemma validate_not_gate: "validateDataScope b = Inl r \<Longrightarrow> \<not> gate_rejection r"
  by (auto simp: validateDataScope_def split: if_splits)

lemma validate_cw: "validateDataScope (b \<lparr> confidenceWeight := cw \<rparr>) = validateDataScope b"
  by (simp add: validateDataScope_def)

lemma provenance_cw: "provenance_ok (b \<lparr> confidenceWeight := cw \<rparr>) = provenance_ok b"
  by (simp add: provenance_ok_def)

lemma qem_register_no_gate:
  "\<not> gate_rejection (fst (qem_register d now tok b))"
  by (auto simp: qem_register_def split: sum.splits option.splits
      dest: auth_not_gate validate_not_gate)

lemma qem_register_indep:
  "fst (qem_register (d \<lparr> observer_metrics := om \<rparr>) now tok (b \<lparr> confidenceWeight := cw \<rparr>))
     = fst (qem_register d now tok b)"
  by (auto simp: qem_register_def insert_question_def validate_cw provenance_cw
      split: sum.splits option.splits)

lemma loa_track_outcome_no_gate:
  "\<not> gate_rejection (fst (loa_track_outcome d now tok b))"
  by (auto simp: loa_track_outcome_def Let_def split: sum.splits option.splits
      dest: auth_not_gate validate_not_gate)

lemma loa_track_outcome_indep:
  "fst (loa_track_outcome (d \<lparr> observer_metrics := om \<rparr>) now tok (b \<lparr> confidenceWeight := cw \<rparr>))
     = fst (loa_track_outcome d now tok b)"
  by (auto simp: loa_track_outcome_def insert_lagged_outcome_def validate_cw provenance_cw Let_def
      split: sum.splits option.splits)

lemma oli_update_load_no_gate:
  "\<not> gate_rejection (fst (oli_update_load d now tok b))"
  by (auto simp: oli_update_load_def Let_def split: sum.splits option.splits
      dest: auth_not_gate validate_not_gate)

lemma oli_update_load_indep:
  "fst (oli_update_load (d \<lparr> observer_metrics := om \<rparr>) now tok (b \<lparr> confidenceWeight := cw \<rparr>))
     = fst (oli_update_load d now tok b)"
  by (auto simp: oli_update_load_def upsert_observer_metrics_def validate_cw provenance_cw Let_def
      split: sum.splits option.splits)

lemma pds_track_usage_no_gate:
  "\<not> gate_rejection (fst (pds_track_usage d now tok b))"
  by (auto simp: pds_track_usage_def split: sum.splits option.splits
      dest: auth_not_gate validate_not_gate)

lemma pds_track_usage_indep:
  "fst (pds_track_usage (d \<lparr> observer_metrics := om \<rparr>) now tok (b \<lparr> confidenceWeight := cw \<rparr>))
     = fst (pds_track_usage d now tok b)"
  by (auto simp: pds_track_usage_def insert_usage_event_def validate_cw provenance_cw
      split: sum.splits option.splits)

lemma post_role_indep:
  "e \<noteq> RplTrack \<Longrightarrow>
     fst (post e d now (Decoded i ''analyst'') b) = fst (post e d now (Decoded i ''admin'') b)"
  by (cases e)
    (auto simp: qem_register_def loa_track_outcome_def oli_update_load_def
      pds_track_usage_def authMiddleware_def insert_question_def
      split: sum.splits option.splits)

text \<open>
  Claim C5. Of the five POST routes only the RPL tracking route runs the admission
  gate. A submission to the QEM, LOA, OLI or PDS route is never answered with
  \<open>CooldownActive\<close>, \<open>ConcurrencyExceeded\<close>, \<open>ConfidenceCapExceeded\<close> or \<open>UnauthorizedScope\<close>,
  and its answer depends neither on the table of cooldowns and concurrent audits, nor on
  a declared confidence weight, nor on which of the two admitted roles the actor has.
\<close>

theorem gate_only_on_rpl_track:
  "e \<noteq> RplTrack \<longrightarrow>
     \<not> gate_rejection (fst (post e d now tok b)) \<and>
     fst (post e (d \<lparr> observer_metrics := om \<rparr>) now tok (b \<lparr> confidenceWeight := cw \<rparr>))
       = fst (post e d now tok b) \<and>
     fst (post e d now (Decoded i ''analyst'') b) = fst (post e d now (Decoded i ''admin'') b)"
proof
  assume e: "e \<noteq> RplTrack"
  then have "\<not> gate_rejection (fst (post e d now tok b)) \<and>
     fst (post e (d \<lparr> observer_metrics := om \<rparr>) now tok (b \<lparr> confidenceWeight := cw \<rparr>))
       = fst (post e d now tok b)"
    by (cases e)
      (simp_all add: qem_register_no_gate qem_register_indep loa_track_outcome_no_gate
        loa_track_outcome_indep oli_update_load_no_gate oli_update_load_indep
        pds_track_usage_no_gate pds_track_usage_indep)
  with post_role_indep[OF e]
  show "\<not> gate_rejection (fst (post e d now tok b)) \<and>
     fst (post e (d \<lparr> observer_metrics := om \<rparr>) now tok (b \<lparr> confidenceWeight := cw \<rparr>))
       = fst (post e d now tok b) \<and>
     fst (post e d now (Decoded i ''analyst'') b) = fst (post e d now (Decoded i ''admin'') b)"
    by simp
qed

text \<open>
  An analyst who is cooling down registers a question that declares simulated data and a
  confidence weight of 0.99: the QEM route accepts it, the RPL route refuses the same
  request.
\<close>

lemma question_accepted:
  "fst (qem_register cooling_db 1000 analyst_a1 question_body) = Created"
  by (simp add: qem_register_def authMiddleware_def analyst_a1_def validateDataScope_def
      question_body_def empty_body_def validScopes_def validEvidenceTypes_def trim_def
      is_space_def insert_question_def between_1_5_def provenance_ok_def)

theorem gate_only_on_rpl_track_witness:
  "fst (post QemRegister cooling_db 1000 analyst_a1 question_body) = Created \<and>
   \<not> gate_rejection (fst (post QemRegister cooling_db 1000 analyst_a1 question_body)) \<and>
   fst (post QemRegister (cooling_db \<lparr> observer_metrics := [] \<rparr>) 1000 analyst_a1
          (question_body \<lparr> confidenceWeight := None \<rparr>)) = Created \<and>
   gate_rejection (fst (post RplTrack cooling_db 1000 analyst_a1 question_body))"
proof -
  have "gate_rejection (fst (post RplTrack cooling_db 1000 analyst_a1 question_body))"
    by (simp add: rpl_track_def authMiddleware_def analyst_a1_def
        epistemicHygieneMiddleware_def cooling_db_row cooldown_active_def)
  then show ?thesis
    using gate_only_on_rpl_track[of QemRegister cooling_db 1000 analyst_a1 question_body
        "[]" None "''a1''"]
    by (simp add: question_accepted)
qed


section \<open>Question entropy: the gap, its alert and the resilience score\<close>

lemma checkEntropy_registry: "questionRegistry (checkEntropy s dm now) = questionRegistry s"
  by (simp add: checkEntropy_def triggerEntropyAlert_def Let_def)

lemma registerQuestion_registry:
  "questionRegistry (registerQuestion s q now) =
     AList.update (in_domain q)
       (registry_get (questionRegistry s) (in_domain q) @ [newQuestion q now]) (questionRegistry s)"
  by (simp add: registerQuestion_def Let_def checkEntropy_registry)

lemma fold_registerQuestion_registry:
  assumes "qs \<noteq> []" and "list_all (\<lambda>q. in_domain q = dm) qs"
  shows "questionRegistry (fold (\<lambda>q s. registerQuestion s q now) qs new_QuestionEntropyMonitor)
           = [(dm, map (\<lambda>q. newQuestion q now) qs)]"
  using assms
proof (induction qs rule: rev_induct)
  case Nil
  then show ?case by simp
next
  case (snoc q qs)
  show ?case
  proof (cases "qs = []")
    case True
    with snoc.prems show ?thesis
      by (simp add: registerQuestion_registry new_QuestionEntropyMonitor_def registry_get_def)
  next
    case False
    with snoc show ?thesis
      by (simp add: registerQuestion_registry registry_get_def)
  qed
qed

lemma rising_registry:
  "questionRegistry rising_monitor =
     [(''vendor-oversight'',
       replicate 12 (newQuestion (vendor_question (12 * week_ms)) (20 * week_ms)) @
       replicate 8 (newQuestion (vendor_question (19 * week_ms)) (20 * week_ms)))]"
  unfolding rising_monitor_def
  by (subst fold_registerQuestion_registry[where dm = "''vendor-oversight''"])
    (simp_all add: vendor_question_def list_all_iff)

lemma rising_entropy:
  "gapScore (calculateEntropy rising_monitor ''vendor-oversight'' (20 * week_ms)) = - 100"
  by (simp add: calculateEntropy_def rising_registry registry_get_def newQuestion_def
      vendor_question_def week_ms_def ms_per_day_def Let_def)

lemma rising_resilience: "qem_calculateResilience rising_monitor (20 * week_ms) = 200"
  by (simp add: qem_calculateResilience_def rising_registry[simplified] rising_entropy
      round_half_up_def)


lemma gapScore_formula:
  "gapScore (calculateEntropy s dm now) =
     (if historicalFrequency (calculateEntropy s dm now) > 0
      then ((historicalFrequency (calculateEntropy s dm now) -
             currentFrequency (calculateEntropy s dm now)) /
            historicalFrequency (calculateEntropy s dm now)) * 100
      else 0)"
  by (simp add: calculateEntropy_def Let_def)

lemma entropy_example:
  assumes "historicalFrequency (calculateEntropy s dm now) = 10"
    and "currentFrequency (calculateEntropy s dm now) = 4"
  shows "gapScore (calculateEntropy s dm now) = 60"
  by (subst gapScore_formula) (simp add: assms)

lemma checkEntropy_example:
  assumes "historicalFrequency (calculateEntropy s dm now) = 10"
    and "currentFrequency (calculateEntropy s dm now) = 4"
  shows "entropyAlerts (checkEntropy s dm now) =
       entropyAlerts s @
         [\<lparr> ea_domain = dm, ea_gapScore = 60, ea_threshold = 50, ea_detectedAt = now,
            ea_missingQuestions = generateMissingQuestions dm, ea_riskLevel = LOW \<rparr>]"
  by (simp add: entropy_example[OF assms] checkEntropy_def triggerEntropyAlert_def Let_def)

text \<open>
  Claim C6, as amended. When the historical rate of a domain is 10 questions a week and
  its current rate is 4, the gap score is 60 (a percentage: a drop of 0.6), the check
  raises an alert because 60 is above the threshold of 50, and the severity of the
  alert is \<open>LOW\<close>: \<open>MEDIUM\<close> needs a gap strictly above 60 and \<open>HIGH\<close> one above 75.
\<close>

theorem entropy_gap_example:
  "historicalFrequency (calculateEntropy s dm now) = 10 \<and>
   currentFrequency (calculateEntropy s dm now) = 4 \<longrightarrow>
     gapScore (calculateEntropy s dm now) = 60 \<and>
     entropyAlerts (checkEntropy s dm now) =
       entropyAlerts s @
         [\<lparr> ea_domain = dm, ea_gapScore = 60, ea_threshold = 50, ea_detectedAt = now,
            ea_missingQuestions = generateMissingQuestions dm, ea_riskLevel = LOW \<rparr>]"
  using entropy_example checkEntropy_example by blast

lemma dropping_frequencies:
  assumes "questionRegistry s =
     [(''vendor-oversight'',
           replicate 4 (newQuestion (vendor_question week_ms) 0) @
           replicate 120 (newQuestion (vendor_question (12 * week_ms)) 0) @
           replicate 15 (newQuestion (vendor_question (19 * week_ms)) 0) @
           [newQuestion (vendor_question (19 * week_ms)) (20 * week_ms)])]"
  shows "historicalFrequency (calculateEntropy s ''vendor-oversight'' (20 * week_ms)) = 10 \<and>
         currentFrequency (calculateEntropy s ''vendor-oversight'' (20 * week_ms)) = 4"
  by (simp add: calculateEntropy_def assms registry_get_def newQuestion_def
      vendor_question_def week_ms_def ms_per_day_def Let_def)


lemma full_monitor_registry:
  "questionRegistry full_monitor =
     [(''vendor-oversight'',
           replicate 4 (newQuestion (vendor_question week_ms) 0) @
           replicate 120 (newQuestion (vendor_question (12 * week_ms)) 0) @
           replicate 15 (newQuestion (vendor_question (19 * week_ms)) 0) @
           [newQuestion (vendor_question (19 * week_ms)) (20 * week_ms)])]"
  by (simp add: full_monitor_def dropping_monitor_def registry_get_def)

lemma register_140th:
  "registerQuestion dropping_monitor (vendor_question (19 * week_ms)) (20 * week_ms) =
     checkEntropy full_monitor ''vendor-oversight'' (20 * week_ms)"
proof -
  have "length (registry_get (questionRegistry dropping_monitor) ''vendor-oversight'') = 139"
    by (simp add: dropping_monitor_def registry_get_def)
  then show ?thesis
    by (simp add: registerQuestion_def full_monitor_def Let_def vendor_question_def)
qed

text \<open>
  The registry of 140 questions has these two rates: 120 questions in the historical
  window, divided by 12, and 16 in the recent one, divided by 4.
\<close>

theorem entropy_gap_example_witness:
  "historicalFrequency (calculateEntropy full_monitor ''vendor-oversight'' (20 * week_ms)) = 10 \<and>
   currentFrequency (calculateEntropy full_monitor ''vendor-oversight'' (20 * week_ms)) = 4 \<and>
   gapScore (calculateEntropy full_monitor ''vendor-oversight'' (20 * week_ms)) = 60 \<and>
   map ea_riskLevel (entropyAlerts (checkEntropy full_monitor ''vendor-oversight'' (20 * week_ms)))
     = [LOW]"
proof -
  have "entropyAlerts full_monitor = []"
    by (simp add: full_monitor_def dropping_monitor_def)
  then show ?thesis
    using entropy_gap_example[of full_monitor "''vendor-oversight''" "20 * week_ms"]
      dropping_frequencies[OF full_monitor_registry]
    by simp
qed

text \<open>
  Claim C6 as stated fails: registering the 140th question raises one alert, with gap
  score 60 and severity \<open>LOW\<close>, not \<open>MEDIUM\<close>.
\<close>

theorem entropy_gap_counterexample:
  "historicalFrequency (calculateEntropy full_monitor ''vendor-oversight'' (20 * week_ms)) = 10 \<and>
   currentFrequency (calculateEntropy full_monitor ''vendor-oversight'' (20 * week_ms)) = 4 \<and>
   map ea_gapScore
     (entropyAlerts (registerQuestion dropping_monitor (vendor_question (19 * week_ms))
        (20 * week_ms))) = [60] \<and>
   map ea_riskLevel
     (entropyAlerts (registerQuestion dropping_monitor (vendor_question (19 * week_ms))
        (20 * week_ms))) = [LOW] \<and>
   LOW \<noteq> MEDIUM"
proof -
  note f = dropping_frequencies[OF full_monitor_registry]
  have "entropyAlerts full_monitor = []"
    by (simp add: full_monitor_def dropping_monitor_def)
  then have "entropyAlerts (checkEntropy full_monitor ''vendor-oversight'' (20 * week_ms)) =
      [\<lparr> ea_domain = ''vendor-oversight'', ea_gapScore = 60, ea_threshold = 50,
         ea_detectedAt = 20 * week_ms,
         ea_missingQuestions = generateMissingQuestions ''vendor-oversight'',
         ea_riskLevel = LOW \<rparr>]"
    using checkEntropy_example[of full_monitor "''vendor-oversight''" "20 * week_ms"] f
    by simp
  then show ?thesis
    using f by (simp add: register_140th)
qed


section \<open>Purpose drift: empty keyword sets and recommitment\<close>

lemma keywords_terse: "extractKeywords ''Do it now'' = []"
  by (simp add: extractKeywords_def toLowerCase_char_def is_word_char_def)

lemma js_add_NaN [simp]: "js_add x NaN = NaN"
  by (cases x) simp_all

lemma fold_const_NaN: "xs \<noteq> [] \<Longrightarrow> fold (\<lambda>e score. NaN) xs a = NaN"
  by (induction xs arbitrary: a rule: rev_induct) simp_all

lemma last_n_nonempty: "xs \<noteq> [] \<Longrightarrow> n > 0 \<Longrightarrow> last_n n xs \<noteq> []"
  by (cases xs) (auto simp: last_n_def)

lemma semantic_divergence_NaN:
  assumes "extractKeywords (originalIntent purpose) = []" and "events \<noteq> []"
  shows "calculateSemanticDivergence purpose events = NaN"
proof -
  have "last_n 20 events \<noteq> []"
    using assms(2) by (simp add: last_n_nonempty)
  then show ?thesis
    using assms(1)
    by (simp add: calculateSemanticDivergence_def overlap_count_def js_div_def fold_const_NaN
        js_sub_def Let_def)
qed

lemma checkDrift_purposes: "purposes (checkDrift s pid now) = purposes s"
  by (simp add: checkDrift_def triggerDriftAlert_def Let_def)

lemma checkDrift_usageEvents: "usageEvents (checkDrift s pid now) = usageEvents s"
  by (simp add: checkDrift_def triggerDriftAlert_def Let_def)

lemma trackUsage_purposes: "purposes (trackUsage s pid e now) = purposes s"
  by (simp add: trackUsage_def Let_def checkDrift_purposes)

lemma trackUsage_events:
  "registry_get (usageEvents (trackUsage s pid e now)) pid =
     registry_get (usageEvents s) pid @
       [\<lparr> ev_purposeId = pid, ev_eventType = ui_eventType e, ev_description = ui_description e,
          ev_occurredAt = (case ui_occurredAt e of None \<Rightarrow> now | Some t \<Rightarrow> t) \<rparr>]"
  by (simp add: trackUsage_def Let_def checkDrift_usageEvents registry_get_def update_conv')

lemma terse_purposes:
  "purposes terse_sentinel =
     [(''p2'', \<lparr> pu_id = ''p2'', originalIntent = ''Do it now'', declaredAt = 0,
                lastRecommitment = 0, pu_domain = ''ops'' \<rparr>)]"
  by (simp add: terse_sentinel_def trackUsage_purposes registerPurpose_def
      new_PurposeDriftSentinel_def terse_purpose_def)

lemma terse_events_length:
  "length (registry_get (usageEvents terse_sentinel) ''p2'') = 10"
proof -
  have "registry_get (usageEvents (snd (registerPurpose new_PurposeDriftSentinel ''p2''
          terse_purpose 0))) ''p2'' = []"
    by (simp add: registerPurpose_def new_PurposeDriftSentinel_def registry_get_def)
  then show ?thesis
    by (simp add: terse_sentinel_def trackUsage_events)
qed

lemma terse_divergence:
  "calculateSemanticDivergence
     \<lparr> pu_id = ''p2'', originalIntent = ''Do it now'', declaredAt = 0,
       lastRecommitment = 0, pu_domain = ''ops'' \<rparr>
     (registry_get (usageEvents terse_sentinel) ''p2'') = NaN"
proof -
  have "registry_get (usageEvents terse_sentinel) ''p2'' \<noteq> []"
    using terse_events_length by auto
  then show ?thesis
    by (simp add: semantic_divergence_NaN keywords_terse)
qed

lemma terse_overall: "overallDrift (calculateDrift terse_sentinel ''p2'' 6) = NaN"
  by (simp add: calculateDrift_def terse_purposes terse_events_length Let_def terse_divergence)

text \<open>
  Claim C10 (the code departs from it). The intent \<open>Do it now\<close> has no keyword, so every
  event contributes \<open>0 / 0\<close>: once ten events are tracked, the semantic divergence and the
  overall drift of the purpose are \<open>NaN\<close>, not 0, and the trend is reported as \<open>STABLE\<close>.
\<close>

theorem empty_keywords_drift_is_NaN:
  "extractKeywords ''Do it now'' = [] \<and>
   semanticDivergence (calculateDrift terse_sentinel ''p2'' 6) = NaN \<and>
   overallDrift (calculateDrift terse_sentinel ''p2'' 6) = NaN \<and>
   dm_trend (calculateDrift terse_sentinel ''p2'' 6) = STABLE"
  by (simp add: calculateDrift_def terse_purposes terse_events_length Let_def terse_divergence
      keywords_terse)

lemma terse_resilience: "pds_calculateResilience terse_sentinel 6 = NaN"
  using terse_overall
  by (simp add: pds_calculateResilience_def terse_purposes js_sub_def)

lemma keywords_vendor:
  "extractKeywords ''Detect vendor audit drift'' = [''detect'', ''vendor'', ''audit'', ''drift'']"
  by (simp add: extractKeywords_def toLowerCase_char_def is_word_char_def)

lemma keywords_half:
  "extractKeywords ''We audit every vendor.'' = [''audit'', ''every'', ''vendor'']"
  by (simp add: extractKeywords_def toLowerCase_char_def is_word_char_def)

lemma keywords_full:
  "extractKeywords ''Detect drift in each vendor audit'' =
     [''detect'', ''drift'', ''each'', ''vendor'', ''audit'']"
  by (simp add: extractKeywords_def toLowerCase_char_def is_word_char_def)

lemma alignment_half:
  "verifyRecommitmentAlignment ''Detect vendor audit drift'' ''We audit every vendor.'' = Num (1 / 2)"
  by (simp add: verifyRecommitmentAlignment_def keywords_vendor keywords_half overlap_count_def
      js_div_def)

lemma alignment_full:
  "verifyRecommitmentAlignment ''Detect vendor audit drift''
     ''Detect drift in each vendor audit'' = Num 1"
  by (simp add: verifyRecommitmentAlignment_def keywords_vendor keywords_full overlap_count_def
      js_div_def)

text \<open>
  Where the alignment is a number, \<open>recommit\<close> decides by the threshold: below 0.7 the
  statement is rejected and the state is returned as it was; from 0.7 on it is accepted,
  the open alerts of that purpose are removed, the last recommitment is set to the
  current time, and the system is no longer paused.
\<close>

lemma recommit_where_alignment_defined:
  "map_of (purposes s) pid = Some purpose \<and>
   verifyRecommitmentAlignment (originalIntent purpose) statement = Num a \<longrightarrow>
     (a < 7 / 10 \<longrightarrow> recommit s pid statement now = (False, s)) \<and>
     (a \<ge> 7 / 10 \<longrightarrow>
        fst (recommit s pid statement now) \<and>
        driftAlerts (snd (recommit s pid statement now)) =
          filter (\<lambda>al. da_purposeId al \<noteq> pid) (driftAlerts s) \<and>
        \<not> systemPaused (snd (recommit s pid statement now)) \<and>
        map_of (purposes (snd (recommit s pid statement now))) pid =
          Some (purpose \<lparr> lastRecommitment := now \<rparr>))"
  by (auto simp: recommit_def js_lt_def update_conv')

text \<open>
  On the paused sentinel, a statement with two of the four keywords (overlap 0.5) is
  rejected and the system stays paused; a statement with all four is accepted, the alert
  of \<open>p1\<close> is cleared, the alert of the other purpose stays, and the system resumes.
\<close>

lemma recommit_half_and_full_overlap:
  "recommit drifted_sentinel ''p1'' ''We audit every vendor.'' 9 = (False, drifted_sentinel) \<and>
   systemPaused drifted_sentinel \<and>
   fst (recommit drifted_sentinel ''p1'' ''Detect drift in each vendor audit'' 9) \<and>
   map da_purposeId
     (driftAlerts (snd (recommit drifted_sentinel ''p1'' ''Detect drift in each vendor audit'' 9)))
     = [''p9''] \<and>
   \<not> systemPaused (snd (recommit drifted_sentinel ''p1'' ''Detect drift in each vendor audit'' 9))"
proof -
  let ?p = "\<lparr> pu_id = ''p1'', originalIntent = ''Detect vendor audit drift'',
              declaredAt = 0, lastRecommitment = 0, pu_domain = ''vendor-oversight'' \<rparr>"
  have p: "map_of (purposes drifted_sentinel) ''p1'' = Some ?p"
    by (simp add: drifted_sentinel_def)
  have al: "map da_purposeId (filter (\<lambda>al. da_purposeId al \<noteq> ''p1'') (driftAlerts drifted_sentinel))
      = [''p9'']" "systemPaused drifted_sentinel"
    by (simp_all add: drifted_sentinel_def)
  show ?thesis
    using recommit_where_alignment_defined[of drifted_sentinel "''p1''" ?p
        "''We audit every vendor.''" "1 / 2" 9]
      recommit_where_alignment_defined[of drifted_sentinel "''p1''" ?p
        "''Detect drift in each vendor audit''" 1 9]
    by (simp add: p al alignment_half alignment_full)
qed

text \<open>
  An intent without keywords has no overlap with any statement: the alignment is \<open>0 / 0\<close>,
  \<open>NaN\<close>, the comparison \<open>alignment < 0.7\<close> is false, and every statement is accepted.
\<close>

lemma recommit_without_keywords:
  "map_of (purposes s) pid = Some purpose \<Longrightarrow> extractKeywords (originalIntent purpose) = [] \<Longrightarrow>
   recommit s pid statement now =
     (True, s \<lparr> purposes := AList.update pid (purpose \<lparr> lastRecommitment := now \<rparr>) (purposes s),
               driftAlerts := filter (\<lambda>a. da_purposeId a \<noteq> pid) (driftAlerts s),
               systemPaused := False \<rparr>)"
  by (simp add: recommit_def verifyRecommitmentAlignment_def overlap_count_def js_div_def
      js_lt_def)

text \<open>
  The sentinel with the two purposes: after nine events of \<open>p1\<close>, and after the tenth, at
  which the drift of \<open>p1\<close> is 0.7 and the system is paused.
\<close>

lemma two_purposes_eq:
  "two_purposes =
     \<lparr> purposes =
         [(''p1'', \<lparr> pu_id = ''p1'', originalIntent = ''Detect vendor audit drift'',
                    declaredAt = 0, lastRecommitment = 0, pu_domain = ''vendor-oversight'' \<rparr>),
          (''p2'', \<lparr> pu_id = ''p2'', originalIntent = ''Do it now'', declaredAt = 0,
                    lastRecommitment = 0, pu_domain = ''ops'' \<rparr>)],
       usageEvents = [(''p1'', []), (''p2'', [])], driftAlerts = [], systemPaused = False \<rparr>"
  by (simp add: two_purposes_def registerPurpose_def new_PurposeDriftSentinel_def
      audit_purpose_def terse_purpose_def)

lemma trackUsage_quiet:
  "length (registry_get (usageEvents s) pid) mod 10 \<noteq> 9 \<Longrightarrow>
   trackUsage s pid e now =
     s \<lparr> usageEvents := AList.update pid
           (registry_get (usageEvents s) pid @
              [\<lparr> ev_purposeId = pid, ev_eventType = ui_eventType e,
                 ev_description = ui_description e,
                 ev_occurredAt = (case ui_occurredAt e of None \<Rightarrow> now | Some t \<Rightarrow> t) \<rparr>])
           (usageEvents s) \<rparr>"
  by (simp add: trackUsage_def Let_def) presburger

lemma nine_tracked_eq:
  "nine_tracked =
     two_purposes \<lparr> usageEvents :=
       [(''p1'', [stored_event, stored_event, stored_event, stored_event, stored_event,
                 stored_event, stored_event, stored_event, stored_event]),
        (''p2'', [])] \<rparr>"
  by (simp add: nine_tracked_def two_purposes_eq trackUsage_quiet registry_get_def
      marketing_event_def stored_event_def)

lemma keywords_marketing:
  "extractKeywords ''Exported marketing leads'' = [''exported'', ''marketing'', ''leads'']"
  by (simp add: extractKeywords_def toLowerCase_char_def is_word_char_def)

lemma marketing_drift:
  "calculateDrift
     (nine_tracked \<lparr> usageEvents := AList.update ''p1''
        (registry_get (usageEvents nine_tracked) ''p1'' @ [stored_event])
        (usageEvents nine_tracked) \<rparr>) ''p1'' 5 =
     \<lparr> dm_purposeId = ''p1'', semanticDivergence = Num 1, usagePatternShift = 0,
       overallDrift = Num (7 / 10), dm_trend = CRITICAL, dm_lastCalculated = 5 \<rparr>"
  by (simp add: calculateDrift_def nine_tracked_eq two_purposes_eq registry_get_def
      calculateSemanticDivergence_def calculateUsagePatternShift_def last_n_def Let_def
      stored_event_def keywords_vendor keywords_marketing overlap_count_def js_div_def
      js_sub_def)

lemma paused_sentinel_eq:
  "paused_sentinel =
     \<lparr> purposes =
         [(''p1'', \<lparr> pu_id = ''p1'', originalIntent = ''Detect vendor audit drift'',
                    declaredAt = 0, lastRecommitment = 0, pu_domain = ''vendor-oversight'' \<rparr>),
          (''p2'', \<lparr> pu_id = ''p2'', originalIntent = ''Do it now'', declaredAt = 0,
                    lastRecommitment = 0, pu_domain = ''ops'' \<rparr>)],
       usageEvents =
         [(''p1'', [stored_event, stored_event, stored_event, stored_event, stored_event,
                   stored_event, stored_event, stored_event, stored_event, stored_event]),
          (''p2'', [])],
       driftAlerts =
         [\<lparr> da_purposeId = ''p1'', divergence = Num (7 / 10), da_threshold = 3 / 10,
            da_detectedAt = 5, da_action = PAUSE_SYSTEM, deadline = Some (5 + 7 * ms_per_day) \<rparr>],
       systemPaused = True \<rparr>"
proof -
  have len: "length (registry_get (usageEvents nine_tracked) ''p1'') = 9"
    by (simp add: nine_tracked_eq two_purposes_eq registry_get_def)
  have "paused_sentinel =
      checkDrift (nine_tracked \<lparr> usageEvents := AList.update ''p1''
        (registry_get (usageEvents nine_tracked) ''p1'' @ [stored_event])
        (usageEvents nine_tracked) \<rparr>) ''p1'' 5"
    by (simp add: paused_sentinel_def trackUsage_def Let_def len marketing_event_def
        stored_event_def)
  also have "\<dots> = triggerDriftAlert (nine_tracked \<lparr> usageEvents := AList.update ''p1''
        (registry_get (usageEvents nine_tracked) ''p1'' @ [stored_event])
        (usageEvents nine_tracked) \<rparr>) ''p1''
      \<lparr> dm_purposeId = ''p1'', semanticDivergence = Num 1, usagePatternShift = 0,
        overallDrift = Num (7 / 10), dm_trend = CRITICAL, dm_lastCalculated = 5 \<rparr> 5"
    by (simp add: checkDrift_def marketing_drift)
  also have "\<dots> = \<lparr> purposes =
         [(''p1'', \<lparr> pu_id = ''p1'', originalIntent = ''Detect vendor audit drift'',
                    declaredAt = 0, lastRecommitment = 0, pu_domain = ''vendor-oversight'' \<rparr>),
          (''p2'', \<lparr> pu_id = ''p2'', originalIntent = ''Do it now'', declaredAt = 0,
                    lastRecommitment = 0, pu_domain = ''ops'' \<rparr>)],
       usageEvents =
         [(''p1'', [stored_event, stored_event, stored_event, stored_event, stored_event,
                   stored_event, stored_event, stored_event, stored_event, stored_event]),
          (''p2'', [])],
       driftAlerts =
         [\<lparr> da_purposeId = ''p1'', divergence = Num (7 / 10), da_threshold = 3 / 10,
            da_detectedAt = 5, da_action = PAUSE_SYSTEM, deadline = Some (5 + 7 * ms_per_day) \<rparr>],
       systemPaused = True \<rparr>"
    by (simp add: triggerDriftAlert_def nine_tracked_eq two_purposes_eq registry_get_def)
  finally show ?thesis .
qed

lemma keywords_advertising:
  "extractKeywords ''Sell more advertising'' = [''sell'', ''more'', ''advertising'']"
  by (simp add: extractKeywords_def toLowerCase_char_def is_word_char_def)

lemma alignment_undefined:
  "verifyRecommitmentAlignment ''Do it now'' ''Sell more advertising'' = NaN"
  by (simp add: verifyRecommitmentAlignment_def keywords_terse overlap_count_def js_div_def)

text \<open>
  Claim C7 (the code departs from it). The system is paused by the drift of the purpose
  \<open>p1\<close>. The intent of the purpose \<open>p2\<close>, \<open>Do it now\<close>, has no keyword, so the overlap of
  the statement \<open>Sell more advertising\<close> with it is \<open>0 / 0\<close>, which is not at least 0.7; yet
  \<open>recommit\<close> accepts the statement, sets the last recommitment of \<open>p2\<close>, and the paused
  system resumes, the alert of \<open>p1\<close> still open.
\<close>

theorem recommit_accepts_unrelated_statement:
  "systemPaused paused_sentinel \<and>
   map da_purposeId (driftAlerts paused_sentinel) = [''p1''] \<and>
   map_option originalIntent (map_of (purposes paused_sentinel) ''p2'') = Some ''Do it now'' \<and>
   extractKeywords ''Do it now'' = [] \<and>
   extractKeywords ''Sell more advertising'' = [''sell'', ''more'', ''advertising''] \<and>
   verifyRecommitmentAlignment ''Do it now'' ''Sell more advertising'' = NaN \<and>
   fst (recommit paused_sentinel ''p2'' ''Sell more advertising'' 9) \<and>
   \<not> systemPaused (snd (recommit paused_sentinel ''p2'' ''Sell more advertising'' 9)) \<and>
   map_option lastRecommitment
     (map_of (purposes (snd (recommit paused_sentinel ''p2'' ''Sell more advertising'' 9))) ''p2'')
     = Some 9 \<and>
   driftAlerts (snd (recommit paused_sentinel ''p2'' ''Sell more advertising'' 9)) =
     driftAlerts paused_sentinel"
proof -
  let ?p = "\<lparr> pu_id = ''p2'', originalIntent = ''Do it now'', declaredAt = 0,
              lastRecommitment = 0, pu_domain = ''ops'' \<rparr>"
  have p: "map_of (purposes paused_sentinel) ''p2'' = Some ?p"
    by (simp add: paused_sentinel_eq)
  have r: "recommit paused_sentinel ''p2'' ''Sell more advertising'' 9 =
      (True, paused_sentinel
         \<lparr> purposes := AList.update ''p2'' (?p \<lparr> lastRecommitment := 9 \<rparr>)
              (purposes paused_sentinel),
           driftAlerts := filter (\<lambda>a. da_purposeId a \<noteq> ''p2'') (driftAlerts paused_sentinel),
           systemPaused := False \<rparr>)"
    using p by (simp add: recommit_without_keywords keywords_terse)
  show ?thesis
    unfolding r
    by (simp add: paused_sentinel_eq keywords_terse keywords_advertising alignment_undefined)
qed

section \<open>Observer fatigue, cooldowns and the random placeholders\<close>




lemma updateObserverLoad_stored:
  "map_of (observers (updateObserverLoad s oid now r1 r2)) oid =
     Some ((updated_metrics s oid now r1 r2)
        \<lparr> obs_fatigueRisk := calculateFatigueRisk s (updated_metrics s oid now r1 r2) now \<rparr>)"
  by (simp add: updateObserverLoad_def triggerFatigueAlert_def Let_def updated_metrics_def
      update_conv')








text \<open>
  Claim C2 (the code departs from it). On one and the same database the drift status of
  a purpose with ten events is 10 for one random draw and 36, above the threshold, for
  another; in the Observer Load Index the correction rate and the contradiction
  exposure of an observer are random draws too, and so is the tier stored by
  \<open>updateObserverLoad\<close>.
\<close>

lemma parse_known_purpose: "parse_uuid known_purpose = Some ''7c9e6679742540de944be07fc1f90ae7''"
  by (simp add: parse_uuid_def known_purpose_def hyphen_after_def is_hex_def hex_lower_def)



theorem metrics_depend_on_random_draws:
  "pds_drift_status drift_db observer_o1 known_purpose (1 / 4) = DriftStatus 10 False 10 0 \<and>
   pds_drift_status drift_db observer_o1 known_purpose (9 / 10) = DriftStatus 36 True 10 0 \<and>
   calculateCorrectionRate ''o1'' (1 / 4) = 15 / 100 \<and>
   calculateCorrectionRate ''o1'' (3 / 4) = 45 / 100 \<and>
   calculateContradictionExposure ''o1'' (1 / 4) = 2 / 10 \<and>
   calculateContradictionExposure ''o1'' (3 / 4) = 6 / 10 \<and>
   map_option obs_fatigueRisk
     (map_of (observers (updateObserverLoad loaded_index ''o1'' (50 * hour_ms) 0 0)) ''o1'')
     = Some medium \<and>
   map_option obs_fatigueRisk
     (map_of (observers (updateObserverLoad loaded_index ''o1'' (50 * hour_ms) (11 / 12) (15 / 16)))
        ''o1'')
     = Some high"
  by (simp add: pds_drift_status_def authMiddleware_def observer_o1_def drift_db_def
      parse_known_purpose
      initial_db_def calculateCorrectionRate_def calculateContradictionExposure_def
      updateObserverLoad_stored updated_metrics_def loaded_index_def calculateFatigueRisk_def
      calculateFatigueScore_def getHoursSinceLastBreak_def hour_ms_def)

section \<open>Pattern alerts of the Lagged Outcome Attribution\<close>

lemma recent_same_text_append:
  "recent_same_text now txt (xs @ ys) = (recent_same_text now txt xs \<or> recent_same_text now txt ys)"
  by (simp add: recent_same_text_def)

lemma triggerLagAlert_cases:
  "(recent_same_text now (pattern_text p (length aff)) alerts \<and>
      triggerLagAlert alerts p aff now = alerts) \<or>
   (\<not> recent_same_text now (pattern_text p (length aff)) alerts \<and>
      (\<exists>a. triggerLagAlert alerts p aff now = alerts @ [a] \<and> la_detectedAt a = now \<and>
           la_pattern a = pattern_text p (length aff)))"
  by (simp add: triggerLagAlert_def recent_same_text_def Let_def)

lemma check_pattern_cases:
  "check_pattern os now p alerts = alerts \<or>
   (\<exists>a. check_pattern os now p alerts = alerts @ [a] \<and> la_detectedAt a = now \<and>
        \<not> recent_same_text now (la_pattern a) alerts)"
  using triggerLagAlert_cases[of now p "affected_decisions os (bp_beneficiary p)" alerts]
  by (auto simp: check_pattern_def Let_def)

lemma recent_singleton:
  "la_detectedAt a = now \<Longrightarrow> recent_same_text now (la_pattern a) [a]"
  by (simp add: recent_same_text_def ms_per_day_def)

lemma fold_check_new:
  "\<exists>new. fold (check_pattern os now) ps alerts = alerts @ new \<and>
         distinct (map la_pattern new) \<and>
         list_all (\<lambda>a. la_detectedAt a = now \<and> \<not> recent_same_text now (la_pattern a) alerts) new"
proof (induction ps arbitrary: alerts)
  case Nil
  show ?case by simp
next
  case (Cons p ps)
  from check_pattern_cases[of os now p alerts]
  show ?case
  proof
    assume "check_pattern os now p alerts = alerts"
    with Cons.IH[of alerts] show ?thesis by simp
  next
    assume "\<exists>a. check_pattern os now p alerts = alerts @ [a] \<and> la_detectedAt a = now \<and>
        \<not> recent_same_text now (la_pattern a) alerts"
    then obtain a where a: "check_pattern os now p alerts = alerts @ [a]"
      "la_detectedAt a = now" "\<not> recent_same_text now (la_pattern a) alerts"
      by blast
    from Cons.IH[of "alerts @ [a]"] obtain new where new:
      "fold (check_pattern os now) ps (alerts @ [a]) = (alerts @ [a]) @ new"
      "distinct (map la_pattern new)"
      "list_all (\<lambda>x. la_detectedAt x = now \<and>
          \<not> recent_same_text now (la_pattern x) (alerts @ [a])) new"
      by blast
    have fresh: "la_pattern a \<notin> set (map la_pattern new)"
    proof
      assume "la_pattern a \<in> set (map la_pattern new)"
      then obtain x where x: "x \<in> set new" "la_pattern x = la_pattern a" by auto
      with new(3) have "\<not> recent_same_text now (la_pattern a) (alerts @ [a])"
        by (auto simp: list_all_iff)
      with recent_singleton[OF a(2)] show False
        by (simp add: recent_same_text_append)
    qed
    have "list_all (\<lambda>x. la_detectedAt x = now \<and> \<not> recent_same_text now (la_pattern x) alerts)
            (a # new)"
      using new(3) a(2,3) by (auto simp: list_all_iff recent_same_text_append)
    with new(1,2) fresh a(1) show ?thesis
      by (intro exI[of _ "a # new"]) simp
  qed
qed

lemma check_pattern_recent:
  assumes "3 \<le> length (affected_decisions os (bp_beneficiary p))"
  shows "recent_same_text now
           (pattern_text p (length (affected_decisions os (bp_beneficiary p))))
           (check_pattern os now p alerts)"
proof -
  let ?aff = "affected_decisions os (bp_beneficiary p)"
  have c: "check_pattern os now p alerts = triggerLagAlert alerts p ?aff now"
    using assms by (simp add: check_pattern_def Let_def)
  from triggerLagAlert_cases[of now p ?aff alerts] show ?thesis
  proof
    assume "recent_same_text now (pattern_text p (length ?aff)) alerts \<and>
      triggerLagAlert alerts p ?aff now = alerts"
    then show ?thesis by (simp add: c)
  next
    assume "\<not> recent_same_text now (pattern_text p (length ?aff)) alerts \<and>
      (\<exists>a. triggerLagAlert alerts p ?aff now = alerts @ [a] \<and> la_detectedAt a = now \<and>
           la_pattern a = pattern_text p (length ?aff))"
    then obtain a where a: "triggerLagAlert alerts p ?aff now = alerts @ [a]"
      "la_detectedAt a = now" "la_pattern a = pattern_text p (length ?aff)"
      by blast
    from recent_singleton[OF a(2)] have "recent_same_text now (pattern_text p (length ?aff)) [a]"
      by (simp add: a(3))
    then show ?thesis by (simp add: c a(1) recent_same_text_append)
  qed
qed

lemma fold_check_keeps:
  "recent_same_text now txt alerts \<Longrightarrow>
     recent_same_text now txt (fold (check_pattern os now) ps alerts)"
  using fold_check_new[of os now ps alerts] by (auto simp: recent_same_text_append)

lemma fold_check_exists:
  assumes "p \<in> set ps" and "3 \<le> length (affected_decisions os (bp_beneficiary p))"
  shows "recent_same_text now
           (pattern_text p (length (affected_decisions os (bp_beneficiary p))))
           (fold (check_pattern os now) ps alerts)"
  using assms(1)
proof (induction ps arbitrary: alerts)
  case Nil
  then show ?case by simp
next
  case (Cons q ps)
  show ?case
  proof (cases "p = q")
    case True
    then show ?thesis
      using check_pattern_recent[OF assms(2), of now alerts] by (simp add: fold_check_keeps)
  next
    case False
    with Cons show ?thesis by simp
  qed
qed

lemma trackOutcome_alerts:
  "lagAlerts (trackOutcome s out now) =
     fold (check_pattern (outcomes (trackOutcome s out now)) now)
       (filter high_risk_pattern (map snd (beneficiaryPatterns (trackOutcome s out now))))
       (lagAlerts s)"
  by (simp add: trackOutcome_def checkLagPatterns_def updateBeneficiaryPattern_def Let_def)

text \<open>
  Claim C9, as amended. After an outcome is tracked, every beneficiary whose average
  risk score exceeds 7 and who has at least 3 decisions has an alert with its current
  pattern text (beneficiary, number of decisions, rounded average lag) that is less than
  seven days old: the check emits one unless such an alert is already there. The alerts
  a call emits are appended to the list, bear the current time, have distinct texts, and
  none repeats the text of an alert of the last seven days. The suppression is by text,
  not by beneficiary.
\<close>

theorem pattern_alert_dedup:
  "((b, p) \<in> set (beneficiaryPatterns (trackOutcome s out now)) \<and> high_risk_pattern p \<and>
    n = length (affected_decisions (outcomes (trackOutcome s out now)) (bp_beneficiary p)) \<and>
    3 \<le> n \<longrightarrow>
      recent_same_text now (pattern_text p n) (lagAlerts (trackOutcome s out now))) \<and>
   (\<exists>new. lagAlerts (trackOutcome s out now) = lagAlerts s @ new \<and>
          distinct (map la_pattern new) \<and>
          list_all (\<lambda>a. la_detectedAt a = now \<and>
                        \<not> recent_same_text now (la_pattern a) (lagAlerts s)) new)"
proof (intro conjI impI)
  assume a: "(b, p) \<in> set (beneficiaryPatterns (trackOutcome s out now)) \<and> high_risk_pattern p \<and>
    n = length (affected_decisions (outcomes (trackOutcome s out now)) (bp_beneficiary p)) \<and>
    3 \<le> n"
  then have "p \<in> set (filter high_risk_pattern
      (map snd (beneficiaryPatterns (trackOutcome s out now))))"
    by force
  with a show "recent_same_text now (pattern_text p n) (lagAlerts (trackOutcome s out now))"
    by (subst trackOutcome_alerts) (simp add: fold_check_exists)
next
  show "\<exists>new. lagAlerts (trackOutcome s out now) = lagAlerts s @ new \<and>
          distinct (map la_pattern new) \<and>
          list_all (\<lambda>a. la_detectedAt a = now \<and>
                        \<not> recent_same_text now (la_pattern a) (lagAlerts s)) new"
    by (subst trackOutcome_alerts) (rule fold_check_new)
qed

text \<open>The run, one call at a time.\<close>

lemmas loa_eval =
  trackOutcome_def acme_outcome_def acme_stored_def acme_history_def acme_pattern_def day_def
  calculateRiskScore_def calculateConsistency_def updateBeneficiaryPattern_def
  checkLagPatterns_def high_risk_pattern_def js_div_def js_sub_def check_pattern_def
  affected_decisions_def ms_per_day_def Let_def triggerLagAlert_def pattern_text_def
  toFixed0_def round_half_up_def show_nat.simps acme_alert_def alert8_def alert9_def

lemma acme1_eq:
  "acme1 = \<lparr> outcomes = take 1 acme_history, lagAlerts = [],
      beneficiaryPatterns = [(''acme'', acme_pattern 1 4 (day 201))] \<rparr>"
  by (simp add: acme1_def new_LaggedOutcomeAttribution_def loa_eval)

lemma acme2_eq:
  "acme2 = \<lparr> outcomes = take 2 acme_history, lagAlerts = [],
      beneficiaryPatterns = [(''acme'', acme_pattern 2 8 (day 201))] \<rparr>"
  by (simp add: acme2_def acme1_eq loa_eval)

lemma acme3_eq:
  "acme3 = \<lparr> outcomes = take 3 acme_history, lagAlerts = [],
      beneficiaryPatterns = [(''acme'', acme_pattern 3 15 (day 201))] \<rparr>"
  by (simp add: acme3_def acme2_eq loa_eval)

lemma acme4_eq:
  "acme4 = \<lparr> outcomes = take 4 acme_history, lagAlerts = [],
      beneficiaryPatterns = [(''acme'', acme_pattern 4 23 (day 201))] \<rparr>"
  by (simp add: acme4_def acme3_eq loa_eval)

lemma acme5_eq:
  "acme5 = \<lparr> outcomes = take 5 acme_history, lagAlerts = [],
      beneficiaryPatterns = [(''acme'', acme_pattern 5 31 (day 201))] \<rparr>"
  by (simp add: acme5_def acme4_eq loa_eval)

lemma acme6_eq:
  "acme6 = \<lparr> outcomes = take 6 acme_history, lagAlerts = [],
      beneficiaryPatterns = [(''acme'', acme_pattern 6 39 (day 201))] \<rparr>"
  by (simp add: acme6_def acme5_eq loa_eval)

lemma acme7_eq:
  "acme7 = \<lparr> outcomes = take 7 acme_history, lagAlerts = [],
      beneficiaryPatterns = [(''acme'', acme_pattern 7 48 (day 201))] \<rparr>"
  by (simp add: acme7_def acme6_eq loa_eval)

lemma acme8_eq:
  "acme8 = \<lparr> outcomes = take 8 acme_history, lagAlerts = [alert8],
      beneficiaryPatterns = [(''acme'', acme_pattern 8 57 (day 201))] \<rparr>"
  by (simp add: acme8_def acme7_eq loa_eval)

lemma acme9_eq:
  "acme9 = \<lparr> outcomes = take 9 acme_history, lagAlerts = [alert8, alert9],
      beneficiaryPatterns = [(''acme'', acme_pattern 9 66 (day 203))] \<rparr>"
  by (simp add: acme9_def acme8_eq loa_eval)

lemma acme10_alerts: "lagAlerts acme10 = [alert8, alert9]"
  by (simp add: acme10_def acme9_eq zeta_outcome_def loa_eval)


lemma acme9_texts:
  "pattern_text (acme_pattern 9 66 (day 203)) 9 = ''acme - 9 decisions with avg 200-day lag''"
  by (simp add: pattern_text_def acme_pattern_def toFixed0_def round_half_up_def show_nat.simps)

text \<open>
  The ninth outcome of \<open>acme\<close>: its average risk is 66 / 9, the alert for nine decisions is
  emitted, and the outcome of another beneficiary a day later emits nothing.
\<close>

theorem pattern_alert_dedup_witness:
  "high_risk_pattern (acme_pattern 9 66 (day 203)) \<and>
   length (affected_decisions (outcomes acme9) ''acme'') = 9 \<and>
   recent_same_text (day 203) ''acme - 9 decisions with avg 200-day lag'' (lagAlerts acme9) \<and>
   lagAlerts acme9 = lagAlerts acme8 @ [alert9] \<and>
   lagAlerts acme10 = lagAlerts acme9"
proof -
  have h: "high_risk_pattern (acme_pattern 9 66 (day 203))"
    by (simp add: high_risk_pattern_def acme_pattern_def js_div_def)
  have m: "(''acme'', acme_pattern 9 66 (day 203)) \<in> set (beneficiaryPatterns acme9)"
    by (simp add: acme9_eq)
  have n: "length (affected_decisions (outcomes acme9) (bp_beneficiary (acme_pattern 9 66 (day 203)))) = 9"
    "length (affected_decisions (outcomes acme9) ''acme'') = 9"
    by (simp_all add: acme9_eq affected_decisions_def acme_history_def acme_stored_def
        acme_pattern_def)
  have a: "lagAlerts acme9 = lagAlerts acme8 @ [alert9]" "lagAlerts acme10 = lagAlerts acme9"
    by (simp_all add: acme9_eq acme8_eq acme10_alerts)
  from pattern_alert_dedup[of "''acme''" "acme_pattern 9 66 (day 203)" acme8
      "acme_outcome ''d9''" "day 203" 9, folded acme9_def]
  have "recent_same_text (day 203) (pattern_text (acme_pattern 9 66 (day 203)) 9) (lagAlerts acme9)"
    using h m n by simp
  then show ?thesis
    using h n a by (simp add: acme9_texts)
qed

text \<open>
  Claim C9 as stated fails: the eighth outcome of \<open>acme\<close> emits an alert on day 201, and the
  ninth emits another alert for the same beneficiary on day 203, within seven days,
  because the number of decisions in the pattern text has changed.
\<close>

theorem pattern_alert_counterexample:
  "map la_pattern (lagAlerts acme8) = [''acme - 8 decisions with avg 200-day lag''] \<and>
   map la_pattern (lagAlerts acme9) =
     [''acme - 8 decisions with avg 200-day lag'', ''acme - 9 decisions with avg 200-day lag''] \<and>
   map la_detectedAt (lagAlerts acme9) = [day 201, day 203] \<and>
   map (set \<circ> affectedDecisions) (lagAlerts acme9) =
     [set (map out_decisionId (take 8 acme_history)), set (map out_decisionId acme_history)] \<and>
   day 203 < day 201 + 7 * ms_per_day"
  by (simp add: acme8_eq acme9_eq alert8_def alert9_def acme_alert_def day_def ms_per_day_def
      acme_history_def)


section \<open>The range of the resilience scores\<close>

text \<open>
  Claim C8 (the code departs from it). The resilience of a layer is not always within
  0 and 100. In the Question Entropy Monitor a rise of the question rate gives a negative
  gap score, and the score is only bounded below: with one question a week in the
  historical window and two a week in the recent one the gap is -100 and the resilience
  is 200. In the Purpose Drift Sentinel a purpose without keywords makes it \<open>NaN\<close>.
\<close>

theorem resilience_out_of_range:
  "gapScore (calculateEntropy rising_monitor ''vendor-oversight'' (20 * week_ms)) = - 100 \<and>
   qem_calculateResilience rising_monitor (20 * week_ms) = 200 \<and>
   pds_calculateResilience terse_sentinel 6 = NaN"
  by (simp add: rising_entropy rising_resilience terse_resilience)

section \<open>Neutral values on missing data\<close>












end
